theory Spec2Isabelle
  imports Main
begin

section \<open>Python values, exceptions and indexing\<close>

text \<open>
  The exceptions the modelled code can raise.  A function that can raise returns a value
  of \<open>py_error + 'a\<close>; \<open>Inl\<close> is the exception.  Objects are mutated in place in the
  source, so a method also returns the object it was called on: the mutations made before
  an exception was raised stay.
\<close>

datatype py_error =
    AssertionError
  | IndexError
  | KeyError
  | AttributeError
  | ValueError
  | NotImplementedError
  | FileNotFoundError
  | KeyboardInterrupt
  | Raised string

text \<open>
  \<^verbatim>\<open>xs[i]\<close> on a list, a deque or a one-dimensional array: a negative index counts
  from the end, an index outside \<open>-len .. len-1\<close> raises IndexError.
\<close>

definition py_getitem :: "'a list \<Rightarrow> int \<Rightarrow> py_error + 'a" where
  "py_getitem xs i =
     (if 0 \<le> i \<and> i < int (length xs) then Inr (xs ! nat i)
      else if i < 0 \<and> - int (length xs) \<le> i then Inr (xs ! nat (int (length xs) + i))
      else Inl IndexError)"

section \<open>Bandit environments (rlberry/envs/bandits/bandit_base.py)\<close>

subsection \<open>Bandit\<close>

text \<open>
  The laws of the arms are frozen scipy laws, or any object with a method \<^verbatim>\<open>rvs\<close>.
  That method is not part of the repository: it is the parameter \<open>rvs\<close> below,
  \<open>rvs law size g\<close> being the array drawn by \<^verbatim>\<open>law.rvs(size=size, random_state=g)\<close>
  together with the generator \<open>g\<close> as the draw leaves it.

  The attributes of a \<^verbatim>\<open>Bandit\<close>.  \<open>action_space\<close> is \<^verbatim>\<open>spaces.Discrete(n_arms)\<close>,
  kept as its size; \<open>rng\<close> is the generator \<^verbatim>\<open>Model.__init__\<close> installs.
\<close>

record ('law, 'x, 'g) bandit =
  laws :: "'law list"
  n_arms :: int
  action_space :: int
  rewards :: "'x list list"
  n_rewards :: "int list"
  rng :: 'g

text \<open>
  The list comprehension of \<^verbatim>\<open>Bandit.__init__\<close>: ten samples per arm, every draw made
  with the same generator, which the draws advance one after the other.
\<close>

fun presample :: "('law \<Rightarrow> nat \<Rightarrow> 'g \<Rightarrow> 'x list \<times> 'g) \<Rightarrow> 'law list \<Rightarrow> 'g \<Rightarrow> 'x list list \<times> 'g" where
  "presample rvs [] g = ([], g)"
| "presample rvs (law # ls) g =
     (case rvs law 10 g of (xs, g') \<Rightarrow>
        (case presample rvs ls g' of (xss, g'') \<Rightarrow> (xs # xss, g'')))"

definition Bandit_init ::
  "('law \<Rightarrow> nat \<Rightarrow> 'g \<Rightarrow> 'x list \<times> 'g) \<Rightarrow> 'law list \<Rightarrow> 'g \<Rightarrow> ('law, 'x, 'g) bandit" where
  "Bandit_init rvs ls g =
     (case presample rvs ls g of (xss, g') \<Rightarrow>
        \<lparr> laws = ls,
          n_arms = int (length ls),
          action_space = int (length ls),
          rewards = xss,
          n_rewards = replicate (length ls) 10,
          rng = g' \<rparr>)"

text \<open>
  What \<^verbatim>\<open>step\<close> returns:
  \<^verbatim>\<open>(observation, reward, terminated, truncated, info)\<close>; the info dictionary is
  always empty and is kept as an empty association list.
\<close>

type_synonym 'x step_result = "int \<times> 'x \<times> bool \<times> bool \<times> (string \<times> 'x) list"

text \<open>
  \<^verbatim>\<open>Bandit.step\<close>: the assertion, then \<^verbatim>\<open>self.laws[action]\<close>, then one draw and
  its element 0.  The draw advances the generator also when taking element 0 raises.
\<close>

definition step ::
  "('law \<Rightarrow> nat \<Rightarrow> 'g \<Rightarrow> 'x list \<times> 'g) \<Rightarrow> ('law, 'x, 'g) bandit \<Rightarrow> int
     \<Rightarrow> (py_error + 'x step_result) \<times> ('law, 'x, 'g) bandit" where
  "step rvs b action =
     (if \<not> action < n_arms b then (Inl AssertionError, b)
      else case py_getitem (laws b) action of
             Inl e \<Rightarrow> (Inl e, b)
           | Inr law \<Rightarrow>
               (case rvs law 1 (rng b) of (xs, g') \<Rightarrow>
                  (case py_getitem xs 0 of
                     Inl e \<Rightarrow> (Inl e, b\<lparr>rng := g'\<rparr>)
                   | Inr reward \<Rightarrow> (Inr (0, reward, True, False, []), b\<lparr>rng := g'\<rparr>))))"

text \<open>\<^verbatim>\<open>Bandit.reset(seed=None, option=None)\<close>: both arguments are ignored.\<close>

definition reset ::
  "('law, 'x, 'g) bandit \<Rightarrow> 's option \<Rightarrow> 'o option
     \<Rightarrow> (int \<times> (string \<times> 'x) list) \<times> ('law, 'x, 'g) bandit" where
  "reset b seed option = ((0, []), b)"

text \<open>A run of \<^verbatim>\<open>[env.step(a) for a in actions]\<close> where no call raises; the first
  exception ends the run and is its outcome.\<close>

fun steps ::
  "('law \<Rightarrow> nat \<Rightarrow> 'g \<Rightarrow> 'x list \<times> 'g) \<Rightarrow> ('law, 'x, 'g) bandit \<Rightarrow> int list
     \<Rightarrow> (py_error + 'x step_result list) \<times> ('law, 'x, 'g) bandit" where
  "steps rvs b [] = (Inr [], b)"
| "steps rvs b (a # as) =
     (case step rvs b a of
        (Inl e, b') \<Rightarrow> (Inl e, b')
      | (Inr r, b') \<Rightarrow>
          (case steps rvs b' as of
             (Inl e, b'') \<Rightarrow> (Inl e, b'')
           | (Inr rs, b'') \<Rightarrow> (Inr (r # rs), b'')))"

subsection \<open>AdversarialBandit\<close>

text \<open>
  The constructor takes a two-dimensional array of shape \<open>(T, A)\<close>.  An array is kept as
  its number of columns (\<^verbatim>\<open>shape[1]\<close>, which the rows do not give when there are
  none) and its rows; in a well-formed array every row has that many entries.
\<close>

record 'x array2d =
  ncols :: nat
  rows :: "'x list list"

definition wf_array2d :: "'x array2d \<Rightarrow> bool" where
  "wf_array2d a = list_all (\<lambda>r. length r = ncols a) (rows a)"

record 'x adversarial_bandit =
  adv_n_arms :: int
  adv_rewards :: "'x list list"
  adv_action_space :: int

definition AdversarialBandit_init :: "'x array2d \<Rightarrow> 'x adversarial_bandit" where
  "AdversarialBandit_init a =
     \<lparr> adv_n_arms = int (ncols a),
       adv_rewards = rows a,
       adv_action_space = int (ncols a) \<rparr>"

text \<open>
  \<^verbatim>\<open>AdversarialBandit.step\<close>: the assertion, then \<^verbatim>\<open>popleft\<close> (IndexError on an
  empty deque), then the row's entry.  The row is gone from the deque also when indexing
  it raises.
\<close>

definition adv_step ::
  "'x adversarial_bandit \<Rightarrow> int \<Rightarrow> (py_error + 'x step_result) \<times> 'x adversarial_bandit" where
  "adv_step b action =
     (if \<not> action < adv_n_arms b then (Inl AssertionError, b)
      else case adv_rewards b of
             [] \<Rightarrow> (Inl IndexError, b)
           | row # rest \<Rightarrow>
               (case py_getitem row action of
                  Inl e \<Rightarrow> (Inl e, b\<lparr>adv_rewards := rest\<rparr>)
                | Inr reward \<Rightarrow>
                    (Inr (0, reward, True, False, []), b\<lparr>adv_rewards := rest\<rparr>)))"

definition adv_reset ::
  "'x adversarial_bandit \<Rightarrow> 's option \<Rightarrow> 'o option
     \<Rightarrow> (int \<times> (string \<times> 'x) list) \<times> 'x adversarial_bandit" where
  "adv_reset b seed option = ((0, []), b)"

fun adv_steps ::
  "'x adversarial_bandit \<Rightarrow> int list
     \<Rightarrow> (py_error + 'x step_result list) \<times> 'x adversarial_bandit" where
  "adv_steps b [] = (Inr [], b)"
| "adv_steps b (a # as) =
     (case adv_step b a of
        (Inl e, b') \<Rightarrow> (Inl e, b')
      | (Inr r, b') \<Rightarrow>
          (case adv_steps b' as of
             (Inl e, b'') \<Rightarrow> (Inl e, b'')
           | (Inr rs, b'') \<Rightarrow> (Inr (r # rs), b'')))"

subsection \<open>Reseeding a bandit\<close>

text \<open>
  Modelled from the spec: \<^verbatim>\<open>rlberry.seeding\<close> (\<^verbatim>\<open>Seeder\<close>, \<^verbatim>\<open>safe_reseed\<close>) is not
  among the sources.  The tests call \<^verbatim>\<open>safe_reseed(env, Seeder(TEST_SEED))\<close> and expect
  the samples that follow to be reproducible: reseeding replaces the generator of the
  environment by the one a \<^verbatim>\<open>Seeder\<close> built from the seed hands out, \<open>seeder_rng seed\<close>,
  and touches nothing else.
\<close>

definition safe_reseed ::
  "('s \<Rightarrow> 'g) \<Rightarrow> ('law, 'x, 'g) bandit \<Rightarrow> 's \<Rightarrow> ('law, 'x, 'g) bandit" where
  "safe_reseed seeder_rng b seed = b\<lparr>rng := seeder_rng seed\<rparr>"

section \<open>AgentStats (rlberry/stats/agent_stats.py)\<close>

subsection \<open>Objects and references\<close>

text \<open>
  Environments and keyword dictionaries are mutable objects that the caller and an
  \<^verbatim>\<open>AgentStats\<close> can share, so they live in a store and are named by their address:
  the index of the object in the list of the environments, or of the dictionaries, made
  so far.  A new object is put at the end.  The store also holds the global state of
  \<^verbatim>\<open>rlberry.seeding\<close>, the number of times the clock was read, and the records sent to
  \<^verbatim>\<open>logging\<close>.  Console output (\<^verbatim>\<open>print\<close>) is not kept.

  The type \<open>'e\<close> is what an environment holds, \<open>'a\<close> an agent, \<open>'v\<close> the values of
  dictionaries (keyword arguments, statistics, rewards), and \<open>'x\<close> the other objects of
  the libraries, which the code only passes on: generators, the seeding state, studies
  and trials.
\<close>

type_synonym addr = nat

type_synonym 'v pydict = "string \<rightharpoonup> 'v"

datatype log_level = ERROR | WARNING

record ('e, 'v, 'x) world =
  envs :: "'e list"
  dicts :: "'v pydict list"
  seeding :: 'x
  clock :: nat
  logged :: "(log_level \<times> string) list"

definition alloc_env :: "'e \<Rightarrow> ('e, 'v, 'x) world \<Rightarrow> addr \<times> ('e, 'v, 'x) world" where
  "alloc_env e w = (length (envs w), w\<lparr>envs := envs w @ [e]\<rparr>)"

definition alloc_dict :: "'v pydict \<Rightarrow> ('e, 'v, 'x) world \<Rightarrow> addr \<times> ('e, 'v, 'x) world" where
  "alloc_dict d w = (length (dicts w), w\<lparr>dicts := dicts w @ [d]\<rparr>)"

text \<open>\<^verbatim>\<open>deepcopy\<close> of an environment and of a dictionary: a new object with the same
  content.  The values of a dictionary are kept by value, so copying the content copies
  them.\<close>

definition deepcopy_env :: "addr \<Rightarrow> ('e, 'v, 'x) world \<Rightarrow> addr \<times> ('e, 'v, 'x) world" where
  "deepcopy_env a w = alloc_env (envs w ! a) w"

definition deepcopy_dict :: "addr \<Rightarrow> ('e, 'v, 'x) world \<Rightarrow> addr \<times> ('e, 'v, 'x) world" where
  "deepcopy_dict a w = alloc_dict (dicts w ! a) w"

text \<open>\<^verbatim>\<open>deepcopy(x)\<close> where \<open>x\<close> may be \<^verbatim>\<open>None\<close>: the copy of \<^verbatim>\<open>None\<close> is \<^verbatim>\<open>None\<close>.\<close>

definition deepcopy_env_opt ::
  "addr option \<Rightarrow> ('e, 'v, 'x) world \<Rightarrow> addr option \<times> ('e, 'v, 'x) world" where
  "deepcopy_env_opt a w =
     (case a of None \<Rightarrow> (None, w)
      | Some b \<Rightarrow> (case deepcopy_env b w of (c, w') \<Rightarrow> (Some c, w')))"

definition deepcopy_dict_opt ::
  "addr option \<Rightarrow> ('e, 'v, 'x) world \<Rightarrow> addr option \<times> ('e, 'v, 'x) world" where
  "deepcopy_dict_opt a w =
     (case a of None \<Rightarrow> (None, w)
      | Some b \<Rightarrow> (case deepcopy_dict b w of (c, w') \<Rightarrow> (Some c, w')))"

text \<open>\<^verbatim>\<open>d.update(other)\<close> on the dictionary at an address: in place.\<close>

definition dict_update_at ::
  "addr \<Rightarrow> 'v pydict \<Rightarrow> ('e, 'v, 'x) world \<Rightarrow> ('e, 'v, 'x) world" where
  "dict_update_at a other w = w\<lparr>dicts := (dicts w)[a := dicts w ! a ++ other]\<rparr>"

subsection \<open>What the rest of rlberry and the libraries provide\<close>

text \<open>
  \<^verbatim>\<open>Model.reseed\<close>, \<^verbatim>\<open>seeding.get_rng\<close> and the clock are not among the sources.  They
  are parameters: \<open>ext_reseed e g\<close> is the environment \<open>e\<close> after \<^verbatim>\<open>e.reseed()\<close> and the
  seeding state after the call, \<open>ext_get_rng g\<close> the generator handed out and the seeding
  state after the call, \<open>ext_timestamp n\<close> the value of
  \<^verbatim>\<open>int(datetime.timestamp(datetime.now()))\<close> at the \<open>n\<close>-th reading of the clock.
\<close>

record ('e, 'x) rlberry_ext =
  ext_reseed :: "'e \<Rightarrow> 'x \<Rightarrow> 'e \<times> 'x"
  ext_get_rng :: "'x \<Rightarrow> 'x \<times> 'x"
  ext_timestamp :: "nat \<Rightarrow> int"

text \<open>\<^verbatim>\<open>env.reseed()\<close> on the environment at an address.\<close>

definition reseed ::
  "('e, 'x) rlberry_ext \<Rightarrow> addr \<Rightarrow> ('e, 'v, 'x) world \<Rightarrow> ('e, 'v, 'x) world" where
  "reseed ext a w =
     (case ext_reseed ext (envs w ! a) (seeding w) of
        (e', g') \<Rightarrow> w\<lparr>envs := (envs w)[a := e'], seeding := g'\<rparr>)"

text \<open>
  An agent class, as \<^verbatim>\<open>AgentStats\<close> uses it: its \<^verbatim>\<open>name\<close> and \<^verbatim>\<open>fit_info\<close>, its
  constructor, the method \<^verbatim>\<open>fit\<close> of its instances and the class method
  \<^verbatim>\<open>sample_parameters\<close>.  The constructor and \<^verbatim>\<open>fit\<close> are code of the agent: they get
  the environment and the keyword dictionary they are called with and the seeding state,
  may raise, and leave all three as they see fit.  \<^verbatim>\<open>fit\<close> returns the agent as fitted
  and the info dictionary.
\<close>

record ('e, 'a, 'v, 'x) agent_class =
  cls_name :: string
  cls_fit_info :: "string list"
  cls_init :: "'e \<Rightarrow> 'v pydict \<Rightarrow> 'x \<Rightarrow> (py_error + 'a) \<times> 'e \<times> 'v pydict \<times> 'x"
  cls_fit :: "'a \<Rightarrow> 'e \<Rightarrow> 'v pydict \<Rightarrow> 'x
                \<Rightarrow> (py_error + 'a \<times> 'v pydict) \<times> 'e \<times> 'v pydict \<times> 'x"
  cls_sample_parameters :: "'x \<Rightarrow> py_error + 'v pydict"

subsection \<open>Strings of the standard library\<close>

text \<open>\<^verbatim>\<open>str(n)\<close> for an integer.\<close>

function str_nat :: "nat \<Rightarrow> string" where
  "str_nat n =
     (if n < 10 then [char_of (48 + n)]
      else str_nat (n div 10) @ [char_of (48 + n mod 10)])"
  by pat_completeness auto
termination
  by (relation "measure (\<lambda>n. n)") auto

declare str_nat.simps [simp del]

definition str_int :: "int \<Rightarrow> string" where
  "str_int i = (if i < 0 then CHR ''-'' # str_nat (nat (- i)) else str_nat (nat i))"

text \<open>\<^verbatim>\<open>os.path.join(a, b)\<close> on POSIX.\<close>

definition os_path_join :: "string \<Rightarrow> string \<Rightarrow> string" where
  "os_path_join a b =
     (if b \<noteq> [] \<and> hd b = CHR ''/'' then b
      else if a = [] \<or> last a = CHR ''/'' then a @ b
      else a @ ''/'' @ b)"

subsection \<open>The attributes and the constructor\<close>

text \<open>
  The attributes \<^verbatim>\<open>AgentStats.__init__\<close> sets.  An attribute that holds an environment
  or a keyword dictionary holds its address.  \<open>rng\<close> and \<open>identifier\<close>
  of the source are \<open>stats_rng\<close> and \<open>stats_identifier\<close> here.
\<close>

record ('e, 'a, 'v, 'x) agent_stats =
  agent_name :: string
  stats_identifier :: string
  fit_info :: "string list"
  agent_class :: "('e, 'a, 'v, 'x) agent_class"
  train_env :: "addr option"
  eval_env :: addr
  eval_horizon :: "int option"
  init_kwargs :: addr
  fit_kwargs :: addr
  policy_kwargs :: addr
  n_fit :: int
  n_jobs :: int
  output_dir :: string
  verbose :: int
  train_env_set :: "addr list"
  fitted_agents :: "'a list option"
  fit_statistics :: "string \<rightharpoonup> 'v list"
  stats_rng :: 'x
  study :: "'x option"
  default_filename :: string

text \<open>The arguments of the constructor, and the call
  \<^verbatim>\<open>AgentStats(agent_class, train_env)\<close> with every keyword at its default.\<close>

record ('e, 'a, 'v, 'x) init_args =
  arg_agent_class :: "('e, 'a, 'v, 'x) agent_class option"
  arg_train_env :: "addr option"
  arg_eval_env :: "addr option"
  arg_eval_horizon :: "int option"
  arg_init_kwargs :: "addr option"
  arg_fit_kwargs :: "addr option"
  arg_policy_kwargs :: "addr option"
  arg_agent_name :: "string option"
  arg_n_fit :: int
  arg_n_jobs :: int
  arg_output_dir :: string
  arg_verbose :: int

definition default_args ::
  "('e, 'a, 'v, 'x) agent_class option \<Rightarrow> addr option \<Rightarrow> ('e, 'a, 'v, 'x) init_args" where
  "default_args ac te =
     \<lparr> arg_agent_class = ac, arg_train_env = te, arg_eval_env = None,
       arg_eval_horizon = None, arg_init_kwargs = None, arg_fit_kwargs = None,
       arg_policy_kwargs = None, arg_agent_name = None, arg_n_fit = 4, arg_n_jobs = 4,
       arg_output_dir = ''stats_data'', arg_verbose = 5 \<rparr>"

text \<open>
  The loop that fills \<^verbatim>\<open>train_env_set\<close>, \<open>n\<close> being the number of rounds left:
  \<^verbatim>\<open>_env = deepcopy(train_env); _env.reseed(); self.train_env_set.append(_env)\<close>.
  With \<^verbatim>\<open>train_env = None\<close> the copy is \<^verbatim>\<open>None\<close> and \<^verbatim>\<open>reseed\<close> raises
  AttributeError.
\<close>

fun make_train_env_set ::
  "('e, 'x) rlberry_ext \<Rightarrow> addr option \<Rightarrow> nat \<Rightarrow> ('e, 'v, 'x) world
     \<Rightarrow> (py_error + addr list) \<times> ('e, 'v, 'x) world" where
  "make_train_env_set ext te 0 w = (Inr [], w)"
| "make_train_env_set ext te (Suc n) w =
     (case te of
        None \<Rightarrow> (Inl AttributeError, w)
      | Some a \<Rightarrow>
          (let (c, w1) = deepcopy_env a w
           in case make_train_env_set ext te n (reseed ext c w1) of
                (Inl e, w2) \<Rightarrow> (Inl e, w2)
              | (Inr cs, w2) \<Rightarrow> (Inr (c # cs), w2)))"

text \<open>
  \<^verbatim>\<open>AgentStats.__init__\<close>.  The object is given by its attributes: \<open>None\<close> is the
  object without any attribute, which the constructor leaves when \<^verbatim>\<open>agent_class\<close> is
  \<^verbatim>\<open>None\<close>.  \<^verbatim>\<open>range(n_fit)\<close> is empty for a negative \<open>n_fit\<close>.
\<close>

definition AgentStats_init ::
  "('e, 'x) rlberry_ext \<Rightarrow> ('e, 'a, 'v, 'x) init_args \<Rightarrow> ('e, 'v, 'x) world
     \<Rightarrow> (py_error + ('e, 'a, 'v, 'x) agent_stats option) \<times> ('e, 'v, 'x) world" where
  "AgentStats_init ext args w0 =
     (case arg_agent_class args of
        None \<Rightarrow> (Inr None, w0)
      | Some ac \<Rightarrow>
          (let name = (case arg_agent_name args of None \<Rightarrow> cls_name ac | Some n \<Rightarrow> n);
               ident = ''stats_'' @ name @ ''_'' @ str_int (ext_timestamp ext (clock w0));
               w1 = w0\<lparr>clock := Suc (clock w0)\<rparr>
           in case (case arg_eval_env args of None \<Rightarrow> arg_train_env args | Some a \<Rightarrow> Some a) of
                None \<Rightarrow> (Inl AttributeError, w1)
              | Some src \<Rightarrow>
                  (let (ev, w2) = deepcopy_env src w1;
                       (pk0, w3) = deepcopy_dict_opt (arg_policy_kwargs args) (reseed ext ev w2);
                       (ik, w4) = (case arg_init_kwargs args of
                                     None \<Rightarrow> alloc_dict Map.empty w3 | Some a \<Rightarrow> (a, w3));
                       (fk, w5) = (case arg_fit_kwargs args of
                                     None \<Rightarrow> alloc_dict Map.empty w4 | Some a \<Rightarrow> (a, w4));
                       (pk, w6) = (case pk0 of
                                     None \<Rightarrow> alloc_dict Map.empty w5 | Some a \<Rightarrow> (a, w5))
                   in case make_train_env_set ext (arg_train_env args) (nat (arg_n_fit args)) w6 of
                        (Inl e, w7) \<Rightarrow> (Inl e, w7)
                      | (Inr tes, w7) \<Rightarrow>
                          (let (r, g) = ext_get_rng ext (seeding w7)
                           in (Inr (Some
                                 \<lparr> agent_name = name,
                                   stats_identifier = ident,
                                   fit_info = cls_fit_info ac,
                                   agent_class = ac,
                                   train_env = arg_train_env args,
                                   eval_env = ev,
                                   eval_horizon = arg_eval_horizon args,
                                   init_kwargs = ik,
                                   fit_kwargs = fk,
                                   policy_kwargs = pk,
                                   n_fit = arg_n_fit args,
                                   n_jobs = arg_n_jobs args,
                                   output_dir = arg_output_dir args,
                                   verbose = arg_verbose args,
                                   train_env_set = tes,
                                   fitted_agents = None,
                                   fit_statistics = Map.empty,
                                   stats_rng = r,
                                   study = None,
                                   default_filename = os_path_join (arg_output_dir args) ident \<rparr>),
                               w7\<lparr>seeding := g\<rparr>)))))"

subsection \<open>fit\<close>

text \<open>
  \<^verbatim>\<open>_fit_worker\<close>: the agent is built on the environment it is given
  (\<^verbatim>\<open>copy_env=False, reseed_env=False\<close>) with the keyword arguments it is given, then
  fitted.  What the agent's code does to the environment, to the two dictionaries and to
  the seeding state is written back to them, also when it raises.
\<close>

definition fit_worker ::
  "('e, 'a, 'v, 'x) agent_class \<times> addr \<times> addr \<times> addr \<Rightarrow> ('e, 'v, 'x) world
     \<Rightarrow> (py_error + 'a \<times> 'v pydict) \<times> ('e, 'v, 'x) world" where
  "fit_worker args w =
     (let (cls, env, init_kw, fit_kw) = args;
          (r, e1, k1, g1) = cls_init cls (envs w ! env) (dicts w ! init_kw) (seeding w);
          w1 = w\<lparr>envs := (envs w)[env := e1], dicts := (dicts w)[init_kw := k1], seeding := g1\<rparr>
      in case r of
           Inl e \<Rightarrow> (Inl e, w1)
         | Inr agent \<Rightarrow>
             (let (info, e2, k2, g2) =
                    cls_fit cls agent (envs w1 ! env) (dicts w1 ! fit_kw) (seeding w1)
              in (info, w1\<lparr>envs := (envs w1)[env := e2],
                            dicts := (dicts w1)[fit_kw := k2], seeding := g2\<rparr>)))"

text \<open>
  The list \<^verbatim>\<open>args\<close> of \<^verbatim>\<open>fit\<close>: for each training environment the class, the
  environment, and a new deep copy of \<^verbatim>\<open>init_kwargs\<close> and of \<^verbatim>\<open>fit_kwargs\<close>.
\<close>

fun fit_args ::
  "('e, 'a, 'v, 'x) agent_stats \<Rightarrow> addr list \<Rightarrow> ('e, 'v, 'x) world
     \<Rightarrow> (('e, 'a, 'v, 'x) agent_class \<times> addr \<times> addr \<times> addr) list \<times> ('e, 'v, 'x) world" where
  "fit_args self [] w = ([], w)"
| "fit_args self (env # rest) w =
     (let (ik, w1) = deepcopy_dict (init_kwargs self) w;
          (fk, w2) = deepcopy_dict (fit_kwargs self) w1;
          (args, w3) = fit_args self rest w2
      in ((agent_class self, env, ik, fk) # args, w3))"

text \<open>
  \<^verbatim>\<open>Parallel(n_jobs, verbose)(delayed(f)(arg) for arg in args)\<close> of joblib, which is
  not part of the repository: it returns the results of the tasks in the order of the
  tasks, and an exception of a task is raised to the caller.  The tasks are run here one
  after the other, as joblib does for one job; the number of jobs and the verbosity choose how
  joblib schedules and reports, not what it returns.
\<close>

fun run_tasks ::
  "('arg \<Rightarrow> 'w \<Rightarrow> (py_error + 'out) \<times> 'w) \<Rightarrow> 'arg list \<Rightarrow> 'w \<Rightarrow> (py_error + 'out list) \<times> 'w" where
  "run_tasks f [] w = (Inr [], w)"
| "run_tasks f (arg # args) w =
     (case f arg w of
        (Inl e, w1) \<Rightarrow> (Inl e, w1)
      | (Inr out, w1) \<Rightarrow>
          (case run_tasks f args w1 of
             (Inl e, w2) \<Rightarrow> (Inl e, w2)
           | (Inr outs, w2) \<Rightarrow> (Inr (out # outs), w2)))"

definition joblib_Parallel ::
  "int \<Rightarrow> int \<Rightarrow> ('arg \<Rightarrow> 'w \<Rightarrow> (py_error + 'out) \<times> 'w) \<Rightarrow> 'arg list \<Rightarrow> 'w
     \<Rightarrow> (py_error + 'out list) \<times> 'w" where
  "joblib_Parallel jobs verbosity f args w = run_tasks f args w"

text \<open>
  The loops that gather the statistics.  The inner loop appends \<^verbatim>\<open>stat[entry]\<close> for
  each worker; a missing key raises KeyError and leaves the list as far as it got.
\<close>

fun gather_entry ::
  "string \<Rightarrow> 'v pydict list \<Rightarrow> 'v list \<Rightarrow> (py_error + unit) \<times> 'v list" where
  "gather_entry entry [] acc = (Inr (), acc)"
| "gather_entry entry (stat # stats) acc =
     (case stat entry of
        None \<Rightarrow> (Inl KeyError, acc)
      | Some v \<Rightarrow> gather_entry entry stats (acc @ [v]))"

fun gather ::
  "string list \<Rightarrow> 'v pydict list \<Rightarrow> (string \<rightharpoonup> 'v list)
     \<Rightarrow> (py_error + unit) \<times> (string \<rightharpoonup> 'v list)" where
  "gather [] stats fs = (Inr (), fs)"
| "gather (entry # entries) stats fs =
     (case gather_entry entry stats [] of
        (Inl e, l) \<Rightarrow> (Inl e, fs(entry \<mapsto> l))
      | (Inr u, l) \<Rightarrow> gather entries stats (fs(entry \<mapsto> l)))"

text \<open>\<^verbatim>\<open>AgentStats.fit\<close>.\<close>

definition fit ::
  "('e, 'a, 'v, 'x) agent_stats \<Rightarrow> ('e, 'v, 'x) world
     \<Rightarrow> (py_error + unit) \<times> ('e, 'a, 'v, 'x) agent_stats \<times> ('e, 'v, 'x) world" where
  "fit self w =
     (let (args, w1) = fit_args self (train_env_set self) w
      in case joblib_Parallel (n_jobs self) (verbose self) fit_worker args w1 of
           (Inl e, w2) \<Rightarrow> (Inl e, self, w2)
         | (Inr workers_output, w2) \<Rightarrow>
             (let self1 = self\<lparr>fitted_agents := Some (map fst workers_output)\<rparr>;
                  stats = map snd workers_output;
                  (r, fs) = gather (fit_info self1) stats (fit_statistics self1)
              in (r, self1\<lparr>fit_statistics := fs\<rparr>, w2)))"

text \<open>\<open>k\<close> calls of \<^verbatim>\<open>fit\<close> on the same object, whether they raise or not.\<close>

fun fits ::
  "nat \<Rightarrow> ('e, 'a, 'v, 'x) agent_stats \<Rightarrow> ('e, 'v, 'x) world
     \<Rightarrow> ('e, 'a, 'v, 'x) agent_stats \<times> ('e, 'v, 'x) world" where
  "fits 0 self w = (self, w)"
| "fits (Suc k) self w = (let (r, self1, w1) = fit self w in fits k self1 w1)"

subsection \<open>save and load\<close>

text \<open>
  \<^verbatim>\<open>pickle.dump(self.__dict__, ff)\<close> writes the attributes and, for an attribute that is
  an environment or a dictionary, the object itself.  A pickle is therefore the
  attributes with the addresses blanked, and the content of every object an attribute
  names.  The other attributes (the class, the agents, the generator, the study) are
  pickled by value.
\<close>

record ('e, 'a, 'v, 'x) pickled =
  p_attributes :: "('e, 'a, 'v, 'x) agent_stats"
  p_train_env :: "'e option"
  p_eval_env :: 'e
  p_train_env_set :: "'e list"
  p_init_kwargs :: "'v pydict"
  p_fit_kwargs :: "'v pydict"
  p_policy_kwargs :: "'v pydict"

definition blank_addresses :: "('e, 'a, 'v, 'x) agent_stats \<Rightarrow> ('e, 'a, 'v, 'x) agent_stats" where
  "blank_addresses s =
     s\<lparr> train_env := map_option (\<lambda>a. 0) (train_env s), eval_env := 0,
        init_kwargs := 0, fit_kwargs := 0, policy_kwargs := 0,
        train_env_set := map (\<lambda>a. 0) (train_env_set s) \<rparr>"

text \<open>
  The attribute dictionary of an object with the objects it names resolved: what
  \<^verbatim>\<open>pickle.dump\<close> writes.  \<open>None\<close> is the dictionary without any attribute.
\<close>

definition pickle_dump ::
  "('e, 'a, 'v, 'x) agent_stats option \<Rightarrow> ('e, 'v, 'x) world
     \<Rightarrow> ('e, 'a, 'v, 'x) pickled option" where
  "pickle_dump self w =
     map_option (\<lambda>s.
        \<lparr> p_attributes = blank_addresses s,
          p_train_env = map_option (\<lambda>a. envs w ! a) (train_env s),
          p_eval_env = envs w ! eval_env s,
          p_train_env_set = map (\<lambda>a. envs w ! a) (train_env_set s),
          p_init_kwargs = dicts w ! init_kwargs s,
          p_fit_kwargs = dicts w ! fit_kwargs s,
          p_policy_kwargs = dicts w ! policy_kwargs s \<rparr>) self"

fun alloc_envs :: "'e list \<Rightarrow> ('e, 'v, 'x) world \<Rightarrow> addr list \<times> ('e, 'v, 'x) world" where
  "alloc_envs [] w = ([], w)"
| "alloc_envs (e # es) w =
     (let (a, w1) = alloc_env e w; (as, w2) = alloc_envs es w1 in (a # as, w2))"

text \<open>\<^verbatim>\<open>pickle.load\<close> builds the objects of the pickle anew and returns the dictionary
  of the attributes, which name the new objects.\<close>

definition pickle_load ::
  "('e, 'a, 'v, 'x) pickled option \<Rightarrow> ('e, 'v, 'x) world
     \<Rightarrow> ('e, 'a, 'v, 'x) agent_stats option \<times> ('e, 'v, 'x) world" where
  "pickle_load p w =
     (case p of
        None \<Rightarrow> (None, w)
      | Some q \<Rightarrow>
          (let (te, w1) = (case p_train_env q of
                             None \<Rightarrow> (None, w)
                           | Some e \<Rightarrow> (let (a, w') = alloc_env e w in (Some a, w')));
               (ev, w2) = alloc_env (p_eval_env q) w1;
               (tes, w3) = alloc_envs (p_train_env_set q) w2;
               (ik, w4) = alloc_dict (p_init_kwargs q) w3;
               (fk, w5) = alloc_dict (p_fit_kwargs q) w4;
               (pk, w6) = alloc_dict (p_policy_kwargs q) w5
           in (Some ((p_attributes q)
                 \<lparr> train_env := te, eval_env := ev, init_kwargs := ik, fit_kwargs := fk,
                    policy_kwargs := pk, train_env_set := tes \<rparr>), w6)))"

text \<open>
  The files: a file holds a pickle.  Opening a file that is not there for reading raises
  FileNotFoundError; the directory of a file written is taken to exist.  \<open>dirs\<close> are the
  directories \<^verbatim>\<open>os.makedirs\<close> has made.
\<close>

record ('e, 'a, 'v, 'x) filesystem =
  files :: "string \<rightharpoonup> ('e, 'a, 'v, 'x) pickled option"
  dirs :: "string set"

definition os_path_exists :: "('e, 'a, 'v, 'x) filesystem \<Rightarrow> string \<Rightarrow> bool" where
  "os_path_exists fs p = (p \<in> dirs fs \<or> files fs p \<noteq> None)"

definition os_makedirs :: "('e, 'a, 'v, 'x) filesystem \<Rightarrow> string \<Rightarrow> ('e, 'a, 'v, 'x) filesystem" where
  "os_makedirs fs p = fs\<lparr>dirs := insert p (dirs fs)\<rparr>"

text \<open>\<^verbatim>\<open>if filename[-7:] != '.pickle': filename += '.pickle'\<close>; the slice is the whole
  name when the name has fewer than seven characters.\<close>

definition with_pickle_extension :: "string \<Rightarrow> string" where
  "with_pickle_extension filename =
     (if drop (length filename - 7) filename \<noteq> ''.pickle'' then filename @ ''.pickle''
      else filename)"

text \<open>\<^verbatim>\<open>AgentStats.save\<close>.  With \<^verbatim>\<open>filename=None\<close> the attribute
  \<^verbatim>\<open>default_filename\<close> is read, which an object without attributes does not have.\<close>

definition save ::
  "('e, 'a, 'v, 'x) agent_stats option \<Rightarrow> string option \<Rightarrow> ('e, 'v, 'x) world
     \<Rightarrow> ('e, 'a, 'v, 'x) filesystem \<Rightarrow> (py_error + unit) \<times> ('e, 'a, 'v, 'x) filesystem" where
  "save self filename w fs =
     (case (case filename of
              Some f \<Rightarrow> (Inr f, fs)
            | None \<Rightarrow>
                (case self of
                   None \<Rightarrow> (Inl AttributeError, fs)
                 | Some s \<Rightarrow>
                     (Inr (default_filename s),
                      if \<not> os_path_exists fs (output_dir s) then os_makedirs fs (output_dir s)
                      else fs))) of
        (Inl e, fs1) \<Rightarrow> (Inl e, fs1)
      | (Inr f, fs1) \<Rightarrow>
          (Inr (), fs1\<lparr>files := (files fs1)(with_pickle_extension f \<mapsto> pickle_dump self w)\<rparr>))"

text \<open>\<^verbatim>\<open>obj.__dict__.clear()\<close> and \<^verbatim>\<open>obj.__dict__.update(tmp_dict)\<close> on dictionaries
  that hold either no attribute or all of them.\<close>

definition dict_clear :: "'s option \<Rightarrow> 's option" where
  "dict_clear d = None"

definition dict_update :: "'s option \<Rightarrow> 's option \<Rightarrow> 's option" where
  "dict_update d tmp_dict = (case tmp_dict of None \<Rightarrow> d | Some t \<Rightarrow> Some t)"

text \<open>\<^verbatim>\<open>AgentStats.load\<close>: \<^verbatim>\<open>cls(None, None)\<close>, then the dictionary read from the file
  replaces the attributes.\<close>

definition load ::
  "('e, 'x) rlberry_ext \<Rightarrow> string \<Rightarrow> ('e, 'v, 'x) world \<Rightarrow> ('e, 'a, 'v, 'x) filesystem
     \<Rightarrow> (py_error + ('e, 'a, 'v, 'x) agent_stats option) \<times> ('e, 'v, 'x) world" where
  "load ext filename w fs =
     (case AgentStats_init ext (default_args None None) w of
        (Inl e, w1) \<Rightarrow> (Inl e, w1)
      | (Inr obj, w1) \<Rightarrow>
          (case files fs (with_pickle_extension filename) of
             None \<Rightarrow> (Inl FileNotFoundError, w1)
           | Some p \<Rightarrow>
               (let (tmp_dict, w2) = pickle_load p w1
                in (Inr (dict_update (dict_clear obj) tmp_dict), w2))))"

subsection \<open>optimize_hyperparams\<close>

text \<open>
  What optuna, numpy and \<^verbatim>\<open>rlberry.stats.evaluation\<close> provide, as parameters:
  \<^item> \<open>rng_integers g n\<close>: \<^verbatim>\<open>g.integers(n)\<close>, the integer drawn and the generator
    after the draw;
  \<^item> \<open>create_study sampler pruner direction\<close>: \<^verbatim>\<open>optuna.create_study\<close>;
  \<^item> \<open>study_optimize study objective n_trials n_jobs timeout\<close>: \<^verbatim>\<open>study.optimize\<close>,
    which calls the objective on the trials it makes and returns the study as the
    trials leave it; it may raise, KeyboardInterrupt included;
  \<^item> \<open>study_best_trial\<close>: \<^verbatim>\<open>study.best_trial\<close>, which raises when no trial is
    complete, and \<open>study_trials_dataframe\<close>: \<^verbatim>\<open>study.trials_dataframe()\<close>;
  \<^item> \<open>compare_policies stats eval_env eval_horizon stationary_policy n_sim plot\<close>: the
    data frame of rewards, a column per name;
  \<^item> \<open>values_mean\<close>: \<^verbatim>\<open>column.values.mean()\<close>.
\<close>

datatype sampler = RandomSampler int

datatype pruner = SuccessiveHalvingPruner int int int

record 'v frozen_trial =
  trial_params :: "'v pydict"
  trial_value :: 'v

record ('e, 'a, 'v, 'x) optuna_ext =
  rng_integers :: "'x \<Rightarrow> int \<Rightarrow> int \<times> 'x"
  create_study :: "sampler option \<Rightarrow> pruner option \<Rightarrow> string \<Rightarrow> 'x"
  study_optimize ::
    "'x \<Rightarrow> ('x \<Rightarrow> ('e, 'v, 'x) world \<Rightarrow> (py_error + 'v) \<times> ('e, 'v, 'x) world)
        \<Rightarrow> int \<Rightarrow> int \<Rightarrow> int option \<Rightarrow> ('e, 'v, 'x) world
        \<Rightarrow> (py_error + unit) \<times> 'x \<times> ('e, 'v, 'x) world"
  study_best_trial :: "'x \<Rightarrow> py_error + 'v frozen_trial"
  study_trials_dataframe :: "'x \<Rightarrow> (string \<rightharpoonup> 'v list)"
  compare_policies ::
    "('e, 'a, 'v, 'x) agent_stats list \<Rightarrow> addr \<Rightarrow> int option \<Rightarrow> bool \<Rightarrow> int \<Rightarrow> bool
        \<Rightarrow> ('e, 'v, 'x) world \<Rightarrow> (py_error + (string \<rightharpoonup> 'v list)) \<times> ('e, 'v, 'x) world"
  values_mean :: "'v list \<Rightarrow> 'v"

text \<open>The arguments of \<^verbatim>\<open>optimize_hyperparams\<close> and their defaults; \<open>n_fit\<close> and
  \<open>n_jobs\<close> of the source are \<open>opt_n_fit\<close> and \<open>opt_n_jobs\<close> here.\<close>

record opt_args =
  n_trials :: int
  timeout :: "int option"
  n_sim :: int
  opt_n_fit :: int
  opt_n_jobs :: int
  sampler_method :: string
  pruner_method :: string
  continue_previous :: bool

definition default_opt_args :: opt_args where
  "default_opt_args =
     \<lparr> n_trials = 5, timeout = Some 60, n_sim = 5, opt_n_fit = 2, opt_n_jobs = 2,
       sampler_method = ''random'', pruner_method = ''none'', continue_previous = False \<rparr>"

text \<open>
  The function \<^verbatim>\<open>objective\<close> defined inside \<^verbatim>\<open>optimize_hyperparams\<close>.  It reads the
  attributes of \<^verbatim>\<open>self\<close> and the arguments \<^verbatim>\<open>n_sim\<close>, \<^verbatim>\<open>n_fit\<close> and \<^verbatim>\<open>n_jobs\<close>.  The
  arguments of the inner constructor are evaluated from left to right.
\<close>

definition objective ::
  "('e, 'x) rlberry_ext \<Rightarrow> ('e, 'a, 'v, 'x) optuna_ext \<Rightarrow> ('e, 'a, 'v, 'x) agent_stats
     \<Rightarrow> opt_args \<Rightarrow> 'x \<Rightarrow> ('e, 'v, 'x) world \<Rightarrow> (py_error + 'v) \<times> ('e, 'v, 'x) world" where
  "objective ext oext self oa trial w =
     (let (kwargs, w1) = deepcopy_dict (init_kwargs self) w
      in case cls_sample_parameters (agent_class self) trial of
           Inl e \<Rightarrow> (Inl e, w1)
         | Inr sampled \<Rightarrow>
             (let w2 = dict_update_at kwargs sampled w1;
                  (te, w3) = deepcopy_env_opt (train_env self) w2;
                  (fk, w4) = deepcopy_dict (fit_kwargs self) w3;
                  (pk, w5) = deepcopy_dict (policy_kwargs self) w4
              in case AgentStats_init ext
                        \<lparr> arg_agent_class = Some (agent_class self), arg_train_env = te,
                          arg_eval_env = None, arg_eval_horizon = None,
                          arg_init_kwargs = Some kwargs, arg_fit_kwargs = Some fk,
                          arg_policy_kwargs = Some pk, arg_agent_name = Some ''optim'',
                          arg_n_fit = opt_n_fit oa, arg_n_jobs = opt_n_jobs oa,
                          arg_output_dir = ''stats_data'', arg_verbose = 0 \<rparr> w5 of
                   (Inl e, w6) \<Rightarrow> (Inl e, w6)
                 | (Inr None, w6) \<Rightarrow> (Inl AttributeError, w6)
                 | (Inr (Some params_stats), w6) \<Rightarrow>
                     (case fit params_stats w6 of
                        (Inl e, params_stats1, w7) \<Rightarrow> (Inl e, w7)
                      | (Inr u, params_stats1, w7) \<Rightarrow>
                          (let (params_eval_env, w8) = deepcopy_env (eval_env self) w7
                           in case compare_policies oext [params_stats1] params_eval_env
                                     (eval_horizon self) True (n_sim oa) False
                                     (reseed ext params_eval_env w8) of
                                (Inl e, w9) \<Rightarrow> (Inl e, w9)
                              | (Inr eval_result, w9) \<Rightarrow>
                                  (case eval_result ''optim'' of
                                     None \<Rightarrow> (Inl KeyError, w9)
                                   | Some column \<Rightarrow> (Inr (values_mean oext column), w9))))))"

text \<open>
  The block that creates the optuna study.  The draw of the seed advances the generator
  of the object, also when the pruner method is refused afterwards.
\<close>

definition create_optuna_study ::
  "('e, 'a, 'v, 'x) optuna_ext \<Rightarrow> ('e, 'a, 'v, 'x) agent_stats \<Rightarrow> opt_args
     \<Rightarrow> (py_error + 'x) \<times> ('e, 'a, 'v, 'x) agent_stats" where
  "create_optuna_study oext self oa =
     (if continue_previous oa then
        (case study self of None \<Rightarrow> (Inl AssertionError, self) | Some st \<Rightarrow> (Inr st, self))
      else
        (case (if sampler_method oa = ''random'' then
                 (let (optuna_seed, g) = rng_integers oext (stats_rng self) (2 ^ 16)
                  in (Inr (Some (RandomSampler optuna_seed)), self\<lparr>stats_rng := g\<rparr>))
               else if sampler_method oa = ''optuna_default'' then (Inr None, self)
               else (Inl NotImplementedError, self)) of
           (Inl e, self1) \<Rightarrow> (Inl e, self1)
         | (Inr sampler, self1) \<Rightarrow>
             (case (if pruner_method oa = ''halving'' then Inr (Some (SuccessiveHalvingPruner 1 4 0))
                    else if pruner_method oa = ''none'' then Inr None
                    else Inl NotImplementedError) of
                Inl e \<Rightarrow> (Inl e, self1)
              | Inr pruner \<Rightarrow>
                  (let st = create_study oext sampler pruner ''maximize''
                   in (Inr st, self1\<lparr>study := Some st\<rparr>)))))"

text \<open>
  \<^verbatim>\<open>AgentStats.optimize_hyperparams\<close>.  \<open>optuna_installed\<close> is the module's global
  \<^verbatim>\<open>_OPTUNA_INSTALLED\<close>.  The study that \<^verbatim>\<open>study.optimize\<close> changes is the object
  \<^verbatim>\<open>self.study\<close> names, so the attribute holds the study as the trials left it.  A
  KeyboardInterrupt is logged and the method goes on; any other exception leaves it.
\<close>

definition optimize_hyperparams ::
  "('e, 'x) rlberry_ext \<Rightarrow> ('e, 'a, 'v, 'x) optuna_ext \<Rightarrow> bool
     \<Rightarrow> ('e, 'a, 'v, 'x) agent_stats \<Rightarrow> opt_args \<Rightarrow> ('e, 'v, 'x) world
     \<Rightarrow> (py_error + ('v frozen_trial \<times> (string \<rightharpoonup> 'v list)) option)
         \<times> ('e, 'a, 'v, 'x) agent_stats \<times> ('e, 'v, 'x) world" where
  "optimize_hyperparams ext oext optuna_installed self oa w =
     (if \<not> optuna_installed then
        (Inr None, self, w\<lparr>logged := logged w @ [(ERROR, ''Optuna not installed.'')]\<rparr>)
      else if eval_horizon self = None then (Inl AssertionError, self, w)
      else
        (case create_optuna_study oext self oa of
           (Inl e, self1) \<Rightarrow> (Inl e, self1, w)
         | (Inr st, self1) \<Rightarrow>
             (let (r, st1, w1) = study_optimize oext st (objective ext oext self1 oa)
                                   (n_trials oa) (opt_n_jobs oa) (timeout oa) w;
                  self2 = self1\<lparr>study := Some st1\<rparr>;
                  (r1, w2) = (case r of
                                Inl KeyboardInterrupt \<Rightarrow>
                                  (Inr (), w1\<lparr>logged := logged w1 @ [(WARNING, ''Evaluation stopped.'')]\<rparr>)
                              | Inl e \<Rightarrow> (Inl e, w1)
                              | Inr u \<Rightarrow> (Inr (), w1))
              in case r1 of
                   Inl e \<Rightarrow> (Inl e, self2, w2)
                 | Inr u \<Rightarrow>
                     (case study_best_trial oext st1 of
                        Inl e \<Rightarrow> (Inl e, self2, w2)
                      | Inr best_trial \<Rightarrow>
                          (Inr (Some (best_trial, study_trials_dataframe oext st1)), self2,
                           dict_update_at (init_kwargs self2) (trial_params best_trial) w2)))))"

subsection \<open>A small experiment, for the examples\<close>

text \<open>
  The values at which the theorems below are tried.  An environment holds a position and
  the seed it was given last; reseeding an environment stores the seeding state in it
  and advances that state; \<^verbatim>\<open>get_rng\<close> hands out the seeding state and advances it;
  the \<open>n\<close>-th reading of the clock gives \<open>n\<close>.  An agent of the class \<^verbatim>\<open>A2C\<close> is a
  number, at first the seed of its environment; fitting it adds one, reports the old
  number as \<^verbatim>\<open>episode_rewards\<close>, moves the environment and writes into the keyword
  dictionary it was given.
\<close>

definition example_ext :: "(nat \<times> nat, nat) rlberry_ext" where
  "example_ext =
     \<lparr> ext_reseed = (\<lambda>e g. ((fst e, g), Suc g)),
       ext_get_rng = (\<lambda>g. (g, Suc g)),
       ext_timestamp = (\<lambda>n. int n) \<rparr>"

definition example_class :: "(nat \<times> nat, nat, int, nat) agent_class" where
  "example_class =
     \<lparr> cls_name = ''A2C'',
       cls_fit_info = [''episode_rewards''],
       cls_init = (\<lambda>e kw g. (Inr (snd e), e, kw, Suc g)),
       cls_fit = (\<lambda>a e kw g.
          (Inr (Suc a, [''episode_rewards'' \<mapsto> int a]), (Suc (fst e), snd e), kw(''seen'' \<mapsto> 1), g)),
       cls_sample_parameters = (\<lambda>t. Inr [''lr'' \<mapsto> int t]) \<rparr>"

text \<open>The caller's objects: one environment, and the dictionaries the caller passes as
  \<^verbatim>\<open>init_kwargs\<close> and \<^verbatim>\<open>fit_kwargs\<close>.\<close>

definition example_world :: "(nat \<times> nat, int, nat) world" where
  "example_world =
     \<lparr> envs = [(7, 0)], dicts = [[''lr'' \<mapsto> 1], [''budget'' \<mapsto> 10]],
       seeding = 100, clock = 0, logged = [] \<rparr>"

definition example_args :: "(nat \<times> nat, nat, int, nat) init_args" where
  "example_args =
     (default_args (Some example_class) (Some 0))
       \<lparr> arg_eval_horizon := Some 20, arg_init_kwargs := Some 0, arg_fit_kwargs := Some 1,
         arg_n_fit := 2 \<rparr>"

text \<open>The object the constructor builds from them and the store it leaves, and both
  after one call of \<^verbatim>\<open>fit\<close>.\<close>

definition example_stats :: "(nat \<times> nat, nat, int, nat) agent_stats" where
  "example_stats =
     \<lparr> agent_name = ''A2C'', stats_identifier = ''stats_A2C_0'',
       fit_info = [''episode_rewards''], agent_class = example_class,
       train_env = Some 0, eval_env = 1, eval_horizon = Some 20,
       init_kwargs = 0, fit_kwargs = 1, policy_kwargs = 2,
       n_fit = 2, n_jobs = 4, output_dir = ''stats_data'', verbose = 5,
       train_env_set = [2, 3], fitted_agents = None, fit_statistics = Map.empty,
       stats_rng = 103, study = None,
       default_filename = ''stats_data/stats_A2C_0'' \<rparr>"

definition example_world1 :: "(nat \<times> nat, int, nat) world" where
  "example_world1 =
     \<lparr> envs = [(7, 0), (7, 100), (7, 101), (7, 102)],
       dicts = [[''lr'' \<mapsto> 1], [''budget'' \<mapsto> 10], Map.empty],
       seeding = 104, clock = 1, logged = [] \<rparr>"

definition example_fitted :: "(nat \<times> nat, nat, int, nat) agent_stats" where
  "example_fitted =
     example_stats\<lparr> fitted_agents := Some [102, 103],
                    fit_statistics := [''episode_rewards'' \<mapsto> [101, 102]] \<rparr>"

definition example_world2 :: "(nat \<times> nat, int, nat) world" where
  "example_world2 =
     \<lparr> envs = [(7, 0), (7, 100), (8, 101), (8, 102)],
       dicts = [[''lr'' \<mapsto> 1], [''budget'' \<mapsto> 10], Map.empty,
                [''lr'' \<mapsto> 1], [''budget'' \<mapsto> 10, ''seen'' \<mapsto> 1],
                [''lr'' \<mapsto> 1], [''budget'' \<mapsto> 10, ''seen'' \<mapsto> 1]],
       seeding = 106, clock = 1, logged = [] \<rparr>"

definition example_fs :: "(nat \<times> nat, nat, int, nat) filesystem" where
  "example_fs = \<lparr> files = Map.empty, dirs = {} \<rparr>"

text \<open>
  A study that runs the objective on one trial, the trial 5, and remembers it as the
  best one; \<^verbatim>\<open>sample_parameters\<close> of the class proposes the number of the trial as
  \<^verbatim>\<open>lr\<close>.  \<^verbatim>\<open>compare_policies\<close> gives every object the rewards 10 and 20 under its
  name.  Then the store after one call of the objective, and the object and the store
  after \<^verbatim>\<open>optimize_hyperparams\<close>.
\<close>

definition example_optuna :: "(nat \<times> nat, nat, int, nat) optuna_ext" where
  "example_optuna =
     \<lparr> rng_integers = (\<lambda>g n. (int g mod n, Suc g)),
       create_study = (\<lambda>sampler pruner direction. 0),
       study_optimize = (\<lambda>st obj trials jobs time w.
          case obj 5 w of (Inl e, w') \<Rightarrow> (Inl e, st, w') | (Inr v, w') \<Rightarrow> (Inr (), 5, w')),
       study_best_trial = (\<lambda>st.
          if st = 0 then Inl ValueError
          else Inr \<lparr> trial_params = [''lr'' \<mapsto> int st], trial_value = 15 \<rparr>),
       study_trials_dataframe = (\<lambda>st. [''value'' \<mapsto> [15]]),
       compare_policies = (\<lambda>stats env horizon stationary sims plot w.
          (Inr (map_of (map (\<lambda>s. (agent_name s, [10, 20])) stats)), w)),
       values_mean = (\<lambda>xs. sum_list xs div int (length xs)) \<rparr>"

definition example_opt_args :: opt_args where
  "example_opt_args = default_opt_args\<lparr> n_trials := 1, opt_n_fit := 1 \<rparr>"

definition example_world3 :: "(nat \<times> nat, int, nat) world" where
  "example_world3 =
     \<lparr> envs = [(7, 0), (7, 100), (7, 101), (7, 102), (7, 0), (7, 104), (8, 105), (7, 108)],
       dicts = [[''lr'' \<mapsto> 1], [''budget'' \<mapsto> 10], Map.empty,
                [''lr'' \<mapsto> 5], [''budget'' \<mapsto> 10], Map.empty, Map.empty,
                [''lr'' \<mapsto> 5], [''budget'' \<mapsto> 10, ''seen'' \<mapsto> 1]],
       seeding = 109, clock = 2, logged = [] \<rparr>"

definition example_optimized :: "(nat \<times> nat, nat, int, nat) agent_stats" where
  "example_optimized = example_stats\<lparr> stats_rng := 104, study := Some 5 \<rparr>"

definition example_world4 :: "(nat \<times> nat, int, nat) world" where
  "example_world4 =
     \<lparr> envs = [(7, 0), (7, 100), (7, 101), (7, 102), (7, 0), (7, 104), (8, 105), (7, 108)],
       dicts = [[''lr'' \<mapsto> 5], [''budget'' \<mapsto> 10], Map.empty,
                [''lr'' \<mapsto> 5], [''budget'' \<mapsto> 10], Map.empty, Map.empty,
                [''lr'' \<mapsto> 5], [''budget'' \<mapsto> 10, ''seen'' \<mapsto> 1]],
       seeding = 109, clock = 2, logged = [] \<rparr>"

section \<open>Properties of the bandit environments\<close>

lemma py_getitem_nat:
  "0 \<le> i \<Longrightarrow> i < int (length xs) \<Longrightarrow> py_getitem xs i = Inr (xs ! nat i)"
  by (simp add: py_getitem_def)

text \<open>A step changes the generator of a \<^verbatim>\<open>Bandit\<close> and no other attribute.\<close>

lemma step_frame:
  "laws (snd (step rvs b a)) = laws b \<and> n_arms (snd (step rvs b a)) = n_arms b
   \<and> action_space (snd (step rvs b a)) = action_space b
   \<and> rewards (snd (step rvs b a)) = rewards b \<and> n_rewards (snd (step rvs b a)) = n_rewards b"
  by (simp add: step_def split: sum.splits prod.splits)

lemma steps_frame:
  "laws (snd (steps rvs b acts)) = laws b \<and> n_arms (snd (steps rvs b acts)) = n_arms b"
proof (induction acts arbitrary: b)
  case Nil
  show ?case by simp
next
  case (Cons a as)
  show ?case
    using step_frame[of rvs b a] Cons.IH[of "snd (step rvs b a)"]
    by (auto split: sum.splits prod.splits)
qed

text \<open>The constructor makes \<open>n_arms\<close> the number of laws.\<close>

lemma Bandit_init_n_arms:
  "n_arms (Bandit_init rvs ls g) = int (length (laws (Bandit_init rvs ls g)))"
  by (simp add: Bandit_init_def split: prod.splits)

lemma AdversarialBandit_init_rows:
  "wf_array2d a \<Longrightarrow>
   list_all (\<lambda>r. int (length r) = adv_n_arms (AdversarialBandit_init a))
            (adv_rewards (AdversarialBandit_init a))"
  by (simp add: wf_array2d_def AdversarialBandit_init_def list_all_iff)

text \<open>
  What a step returns is decided by the laws, the number of arms and the generator: two
  bandits that agree on these return the same, and their generators agree afterwards.
\<close>

lemma step_same:
  assumes "laws b1 = laws b2" "n_arms b1 = n_arms b2" "rng b1 = rng b2"
  shows "fst (step rvs b1 a) = fst (step rvs b2 a)
         \<and> rng (snd (step rvs b1 a)) = rng (snd (step rvs b2 a))"
  using assms by (simp add: step_def split: sum.splits prod.splits)

lemma steps_same:
  "laws b1 = laws b2 \<Longrightarrow> n_arms b1 = n_arms b2 \<Longrightarrow> rng b1 = rng b2 \<Longrightarrow>
   fst (steps rvs b1 acts) = fst (steps rvs b2 acts)"
proof (induction acts arbitrary: b1 b2)
  case Nil
  show ?case by simp
next
  case (Cons a as)
  have s: "fst (step rvs b1 a) = fst (step rvs b2 a)"
    "rng (snd (step rvs b1 a)) = rng (snd (step rvs b2 a))"
    using step_same[OF Cons.prems] by simp_all
  have f: "laws (snd (step rvs b1 a)) = laws (snd (step rvs b2 a))"
    "n_arms (snd (step rvs b1 a)) = n_arms (snd (step rvs b2 a))"
    using step_frame[of rvs b1 a] step_frame[of rvs b2 a] Cons.prems by simp_all
  have ih: "fst (steps rvs (snd (step rvs b1 a)) as) = fst (steps rvs (snd (step rvs b2 a)) as)"
    using Cons.IH[OF f s(2)] .
  obtain r1 c1 where e1: "step rvs b1 a = (r1, c1)" by (cases "step rvs b1 a")
  obtain r2 c2 where e2: "step rvs b2 a = (r2, c2)" by (cases "step rvs b2 a")
  show ?case using s ih e1 e2
    by (cases r1; cases "steps rvs c1 as"; cases "steps rvs c2 as")
       (auto split: sum.splits)
qed

text \<open>
  While the deque has a row for each call, the calls succeed one after the other, each
  taking the row at the head.
\<close>

lemma adv_steps_take:
  "list_all (\<lambda>r. int (length r) = adv_n_arms b) (adv_rewards b) \<Longrightarrow>
   length acts \<le> length (adv_rewards b) \<Longrightarrow>
   list_all (\<lambda>a. 0 \<le> a \<and> a < adv_n_arms b) acts \<Longrightarrow>
   adv_steps b acts =
     (Inr (map2 (\<lambda>row a. (0, row ! nat a, True, False, [])) (adv_rewards b) acts),
      b\<lparr>adv_rewards := drop (length acts) (adv_rewards b)\<rparr>)"
proof (induction acts arbitrary: b)
  case Nil
  then show ?case by simp
next
  case (Cons a as)
  then obtain row rest where q: "adv_rewards b = row # rest"
    by (cases "adv_rewards b") auto
  from Cons.prems q have row: "int (length row) = adv_n_arms b" and a: "0 \<le> a" "a < adv_n_arms b"
    by auto
  have st: "adv_step b a = (Inr (0, row ! nat a, True, False, []), b\<lparr>adv_rewards := rest\<rparr>)"
    using q row a by (simp add: adv_step_def py_getitem_nat)
  have "adv_steps (b\<lparr>adv_rewards := rest\<rparr>) as =
     (Inr (map2 (\<lambda>row a. (0, row ! nat a, True, False, [])) rest as),
      b\<lparr>adv_rewards := drop (length as) rest\<rparr>)"
    using Cons.IH[of "b\<lparr>adv_rewards := rest\<rparr>"] Cons.prems q by simp
  then show ?case using st q by simp
qed

text \<open>
  Claim C5, as the code has it.  An action is an arm, \<open>0 \<le> action < n_arms\<close>.
  \<^item> A step of a \<^verbatim>\<open>Bandit\<close> whose law returns the one sample asked for returns
    observation 0, that sample as the reward, \<open>terminated = True\<close>, \<open>truncated = False\<close>
    and an empty info dictionary, and changes the generator only.
  \<^item> A step of an \<^verbatim>\<open>AdversarialBandit\<close> returns the same shape while the deque of
    rewards has a row, which the step removes; on an empty deque it raises IndexError.
  \<^item> \<open>reset\<close> returns \<open>(0, {})\<close> and leaves the environment as it is.
  So every episode ends after one step and no reset changes what a step returns; the
  reward, and for the adversarial bandit whether the step succeeds at all, depend on the
  steps made before.
\<close>

theorem bandit_step_reset_lifecycle:
  assumes "n_arms b = int (length (laws b))"
    and "0 \<le> action" and "action < n_arms b"
    and "length (fst (rvs (laws b ! nat action) 1 (rng b))) = 1"
    and "list_all (\<lambda>r. int (length r) = adv_n_arms ab) (adv_rewards ab)"
    and "0 \<le> act" and "act < adv_n_arms ab"
  shows "step rvs b action =
           (Inr (0, fst (rvs (laws b ! nat action) 1 (rng b)) ! 0, True, False, []),
            b\<lparr>rng := snd (rvs (laws b ! nat action) 1 (rng b))\<rparr>)
         \<and> reset b seed opt = ((0, []), b)
         \<and> adv_step ab act =
            (case adv_rewards ab of
               [] \<Rightarrow> (Inl IndexError, ab)
             | row # rest \<Rightarrow> (Inr (0, row ! nat act, True, False, []), ab\<lparr>adv_rewards := rest\<rparr>))
         \<and> adv_reset ab seed' opt' = ((0, []), ab)"
proof -
  have 1: "step rvs b action =
           (Inr (0, fst (rvs (laws b ! nat action) 1 (rng b)) ! 0, True, False, []),
            b\<lparr>rng := snd (rvs (laws b ! nat action) 1 (rng b))\<rparr>)"
    using assms(1-4) by (auto simp: step_def py_getitem_def split: prod.splits)
  have 2: "adv_step ab act =
            (case adv_rewards ab of
               [] \<Rightarrow> (Inl IndexError, ab)
             | row # rest \<Rightarrow> (Inr (0, row ! nat act, True, False, []), ab\<lparr>adv_rewards := rest\<rparr>))"
    using assms(5-7) by (auto simp: adv_step_def py_getitem_nat split: list.splits)
  show ?thesis using 1 2 by (simp add: reset_def adv_reset_def)
qed

text \<open>
  The theorem at a bandit with two arms whose law returns its own value, and at an
  adversarial bandit with one row of rewards.
\<close>

theorem bandit_step_reset_lifecycle_witness:
  "step (\<lambda>law n g. (replicate n law, Suc g))
        (Bandit_init (\<lambda>law n g. (replicate n law, Suc g)) [5, 7::int] (0::nat)) 1
     = (Inr (0, 7, True, False, []),
        (Bandit_init (\<lambda>law n g. (replicate n law, Suc g)) [5, 7::int] 0)\<lparr>rng := 3\<rparr>)
   \<and> adv_step (AdversarialBandit_init \<lparr>ncols = 2, rows = [[1, 2::int]]\<rparr>) 1
     = (Inr (0, 2, True, False, []),
        (AdversarialBandit_init \<lparr>ncols = 2, rows = [[1, 2::int]]\<rparr>)\<lparr>adv_rewards := []\<rparr>)"
  using bandit_step_reset_lifecycle[of
      "Bandit_init (\<lambda>law n g. (replicate n law, Suc g)) [5, 7::int] (0::nat)" 1
      "\<lambda>law n g. (replicate n law, Suc g)"
      "AdversarialBandit_init \<lparr>ncols = 2, rows = [[1, 2::int]]\<rparr>" 1
      "None :: nat option" "None :: nat option" "None :: nat option" "None :: nat option"]
  by (simp add: Bandit_init_def AdversarialBandit_init_def)

text \<open>
  Claim C5 as it is stated fails.  With one row of rewards, the action 0 is below
  \<open>n_arms = 2\<close> both times, the first step returns and the second raises IndexError: what
  a step does depends on the steps made before.  The action \<open>-3\<close> is below \<open>n_arms\<close>
  as well, passes the assertion and raises IndexError in both environments.
\<close>

theorem bandit_lifecycle_counterexample:
  "fst (adv_step (AdversarialBandit_init \<lparr>ncols = 2, rows = [[1, 2::int]]\<rparr>) 0)
     = Inr (0, 1, True, False, [])
   \<and> fst (adv_step (snd (adv_step (AdversarialBandit_init \<lparr>ncols = 2, rows = [[1, 2::int]]\<rparr>) 0)) 0)
     = Inl IndexError
   \<and> fst (adv_step (AdversarialBandit_init \<lparr>ncols = 2, rows = [[1, 2::int]]\<rparr>) (- 3))
     = Inl IndexError
   \<and> fst (step (\<lambda>law n g. (replicate n law, Suc g))
            (Bandit_init (\<lambda>law n g. (replicate n law, Suc g)) [5, 7::int] (0::nat)) (- 3))
     = Inl IndexError"
  by (simp add: adv_step_def AdversarialBandit_init_def py_getitem_def step_def Bandit_init_def)

text \<open>
  Claim C7.  An \<^verbatim>\<open>AdversarialBandit\<close> built from a \<open>T\<close>-by-\<open>A\<close> array hands its rows out
  in order: for \<open>k \<le> T\<close> arms \<open>a\<^sub>1, ..., a\<^sub>k\<close>, the \<open>i\<close>-th call of \<open>step\<close> returns the
  reward \<open>rewards[i-1][a\<^sub>i]\<close>; the calls leave the rows from \<open>k\<close> on in the deque; after
  \<open>T\<close> calls a further call with an action below \<open>A\<close> raises IndexError, the deque being
  empty; and \<open>reset\<close> gives back the environment it was called on, with the deque as it
  was.
\<close>

theorem adversarial_rewards_in_order:
  assumes "wf_array2d arr"
    and "length acts \<le> length (rows arr)"
    and "list_all (\<lambda>a. 0 \<le> a \<and> a < int (ncols arr)) acts"
  shows "fst (adv_steps (AdversarialBandit_init arr) acts) =
           Inr (map (\<lambda>i. (0, rows arr ! i ! nat (acts ! i), True, False, [])) [0..<length acts])
         \<and> adv_rewards (snd (adv_steps (AdversarialBandit_init arr) acts)) =
             drop (length acts) (rows arr)
         \<and> (length acts = length (rows arr) \<and> a < int (ncols arr) \<longrightarrow>
              fst (adv_step (snd (adv_steps (AdversarialBandit_init arr) acts)) a) = Inl IndexError)
         \<and> snd (adv_reset b seed opt) = b"
proof -
  let ?b = "AdversarialBandit_init arr"
  have run: "adv_steps ?b acts =
      (Inr (map2 (\<lambda>row a. (0, row ! nat a, True, False, [])) (rows arr) acts),
       ?b\<lparr>adv_rewards := drop (length acts) (rows arr)\<rparr>)"
    using adv_steps_take[OF AdversarialBandit_init_rows[OF assms(1)]] assms(2,3)
    by (simp add: AdversarialBandit_init_def)
  have idx: "map2 (\<lambda>row a. (0, row ! nat a, True, False, [])) (rows arr) acts =
      map (\<lambda>i. (0, rows arr ! i ! nat (acts ! i), True, False, [])) [0..<length acts]"
    using assms(2) by (intro nth_equalityI) simp_all
  show ?thesis
    using run idx
    by (simp add: adv_step_def adv_reset_def AdversarialBandit_init_def)
qed

text \<open>
  The theorem at the array \<open>[[2, 1], [1, 2]]\<close> and the actions \<open>1, 1\<close>: the rewards are
  1 and 2, and the third call raises.
\<close>

theorem adversarial_rewards_in_order_witness:
  "wf_array2d \<lparr>ncols = 2, rows = [[2, 1], [1, 2::int]]\<rparr>
   \<and> fst (adv_steps (AdversarialBandit_init \<lparr>ncols = 2, rows = [[2, 1], [1, 2::int]]\<rparr>) [1, 1])
       = Inr [(0, 1, True, False, []), (0, 2, True, False, [])]
   \<and> adv_rewards (snd (adv_steps (AdversarialBandit_init \<lparr>ncols = 2, rows = [[2, 1], [1, 2::int]]\<rparr>) [1, 1])) = []
   \<and> fst (adv_step (snd (adv_steps (AdversarialBandit_init \<lparr>ncols = 2, rows = [[2, 1], [1, 2::int]]\<rparr>) [1, 1])) 1)
       = Inl IndexError"
  using adversarial_rewards_in_order[of "\<lparr>ncols = 2, rows = [[2, 1], [1, 2::int]]\<rparr>" "[1, 1]" 1
      "AdversarialBandit_init \<lparr>ncols = 2, rows = [[2, 1], [1, 2::int]]\<rparr>"
      "None :: nat option" "None :: nat option"]
  by (simp add: wf_array2d_def upt_rec)

text \<open>
  Claim C8.  The rewards of a \<^verbatim>\<open>Bandit\<close> are decided by the seed: two bandits with the
  same laws, reseeded from the same seed, return the same to the same actions, whatever
  their generators and samples were before; in particular the same bandit, reseeded
  again after a run, repeats the run (the shape of \<^verbatim>\<open>test_bernoulli\<close>).
\<close>

theorem bandit_rewards_deterministic_in_seed:
  "(laws b1 = laws b2 \<and> n_arms b1 = n_arms b2 \<longrightarrow>
      fst (steps rvs (safe_reseed seeder_rng b1 seed) acts) =
      fst (steps rvs (safe_reseed seeder_rng b2 seed) acts))
   \<and> fst (steps rvs (safe_reseed seeder_rng
            (snd (steps rvs (safe_reseed seeder_rng b seed) acts)) seed) acts) =
       fst (steps rvs (safe_reseed seeder_rng b seed) acts)"
proof -
  have g: "laws c1 = laws c2 \<Longrightarrow> n_arms c1 = n_arms c2 \<Longrightarrow>
      fst (steps rvs (safe_reseed seeder_rng c1 seed) acts) =
      fst (steps rvs (safe_reseed seeder_rng c2 seed) acts)" for c1 c2 :: "('a, 'b, 'c) bandit"
    by (rule steps_same) (simp_all add: safe_reseed_def)
  have "laws (snd (steps rvs (safe_reseed seeder_rng b seed) acts)) = laws b"
    "n_arms (snd (steps rvs (safe_reseed seeder_rng b seed) acts)) = n_arms b"
    using steps_frame[of rvs "safe_reseed seeder_rng b seed" acts] by (simp_all add: safe_reseed_def)
  then show ?thesis using g by blast
qed

text \<open>
  The theorem at two bandits with the laws \<open>[5, 7]\<close> whose generators differ before the
  reseeding; a draw returns the law plus the state of the generator.
\<close>

theorem bandit_rewards_deterministic_in_seed_witness:
  "fst (steps (\<lambda>law n g. (replicate n (law + g), Suc g))
          (safe_reseed (\<lambda>s. s + 1)
             (Bandit_init (\<lambda>law n g. (replicate n (law + g), Suc g)) [5, 7::nat] (0::nat)) 42) [1, 0])
     = Inr [(0, 50, True, False, []), (0, 49, True, False, [])]
   \<and> fst (steps (\<lambda>law n g. (replicate n (law + g), Suc g))
          (safe_reseed (\<lambda>s. s + 1)
             (Bandit_init (\<lambda>law n g. (replicate n (law + g), Suc g)) [5, 7::nat] (9::nat)) 42) [1, 0])
     = Inr [(0, 50, True, False, []), (0, 49, True, False, [])]"
  using bandit_rewards_deterministic_in_seed[of
      "Bandit_init (\<lambda>law n g. (replicate n (law + g), Suc g)) [5, 7::nat] (0::nat)"
      "Bandit_init (\<lambda>law n g. (replicate n (law + g), Suc g)) [5, 7::nat] (9::nat)"
      "\<lambda>law n g. (replicate n (law + g), Suc g)" "\<lambda>s. s + 1" 42 "[1, 0]"
      "Bandit_init (\<lambda>law n g. (replicate n (law + g), Suc g)) [5, 7::nat] (0::nat)"]
  by (simp add: Bandit_init_def safe_reseed_def step_def py_getitem_def)

section \<open>Properties of AgentStats\<close>

subsection \<open>What fit does to the store\<close>

text \<open>
  The tasks of \<^verbatim>\<open>fit\<close> name the training environments in order, carry the class, and
  name dictionaries that did not exist before; making them leaves every older object as
  it was.
\<close>

lemma fit_args_spec:
  "fit_args s es w = (args, w') \<Longrightarrow>
     map (\<lambda>t. fst (snd t)) args = es \<and> list_all (\<lambda>t. fst t = agent_class s) args
     \<and> list_all (\<lambda>t. length (dicts w) \<le> fst (snd (snd t)) \<and> length (dicts w) \<le> snd (snd (snd t))) args
     \<and> envs w' = envs w \<and> seeding w' = seeding w \<and> clock w' = clock w \<and> logged w' = logged w
     \<and> length (dicts w) \<le> length (dicts w')
     \<and> take (length (dicts w)) (dicts w') = dicts w"
proof (induction es arbitrary: w args w')
  case Nil
  then show ?case by simp
next
  case (Cons e es)
  let ?w2 = "w\<lparr>dicts := (dicts w @ [dicts w ! init_kwargs s]) @
                 [(dicts w @ [dicts w ! init_kwargs s]) ! fit_kwargs s]\<rparr>"
  obtain args0 w3 where r: "fit_args s es ?w2 = (args0, w3)"
    by (cases "fit_args s es ?w2")
  have a: "args = (agent_class s, e, length (dicts w), Suc (length (dicts w))) # args0" and w': "w' = w3"
    using Cons.prems r by (simp_all add: deepcopy_dict_def alloc_dict_def)
  have ih: "map (\<lambda>t. fst (snd t)) args0 = es \<and> list_all (\<lambda>t. fst t = agent_class s) args0
     \<and> list_all (\<lambda>t. length (dicts ?w2) \<le> fst (snd (snd t)) \<and> length (dicts ?w2) \<le> snd (snd (snd t))) args0
     \<and> envs w3 = envs ?w2 \<and> seeding w3 = seeding ?w2 \<and> clock w3 = clock ?w2 \<and> logged w3 = logged ?w2
     \<and> length (dicts ?w2) \<le> length (dicts w3)
     \<and> take (length (dicts ?w2)) (dicts w3) = dicts ?w2"
    using Cons.IH[OF r] .
  have l: "list_all (\<lambda>t. length (dicts w) \<le> fst (snd (snd t)) \<and> length (dicts w) \<le> snd (snd (snd t))) args0"
    using ih by (auto simp: list_all_iff)
  have "take (length (dicts w)) (take (length (dicts ?w2)) (dicts w3)) = take (length (dicts w)) (dicts ?w2)"
    using ih by simp
  then have t: "take (length (dicts w)) (dicts w3) = dicts w"
    by (simp add: min_def)
  show ?case using ih l t by (simp add: a w')
qed

text \<open>A worker changes the environment and the two dictionaries of its task, and the
  seeding state; the objects below the addresses of its task keep their content.\<close>

lemma fit_worker_frame:
  assumes "fit_worker (c, e, ik, fk) w = (r, w')"
  shows "length (envs w') = length (envs w) \<and> length (dicts w') = length (dicts w)
         \<and> clock w' = clock w \<and> logged w' = logged w
         \<and> (le \<le> e \<longrightarrow> take le (envs w') = take le (envs w))
         \<and> (ld \<le> ik \<and> ld \<le> fk \<longrightarrow> take ld (dicts w') = take ld (dicts w))"
  using assms
  by (auto simp: fit_worker_def Let_def split: prod.splits sum.splits)

lemma run_tasks_fit_worker_frame:
  "run_tasks fit_worker args w = (r, w') \<Longrightarrow>
   list_all (\<lambda>t. le \<le> fst (snd t)) args \<Longrightarrow>
   list_all (\<lambda>t. ld \<le> fst (snd (snd t)) \<and> ld \<le> snd (snd (snd t))) args \<Longrightarrow>
     length (envs w') = length (envs w) \<and> length (dicts w') = length (dicts w)
     \<and> clock w' = clock w \<and> logged w' = logged w
     \<and> take le (envs w') = take le (envs w) \<and> take ld (dicts w') = take ld (dicts w)"
proof (induction args arbitrary: w r w')
  case Nil
  then show ?case by simp
next
  case (Cons t ts)
  obtain c e ik fk where t: "t = (c, e, ik, fk)" by (cases t)
  obtain r1 w1 where f: "fit_worker (c, e, ik, fk) w = (r1, w1)" by (cases "fit_worker (c, e, ik, fk) w")
  have fr: "length (envs w1) = length (envs w) \<and> length (dicts w1) = length (dicts w)
         \<and> clock w1 = clock w \<and> logged w1 = logged w
         \<and> take le (envs w1) = take le (envs w) \<and> take ld (dicts w1) = take ld (dicts w)"
    using fit_worker_frame[OF f, of le ld] Cons.prems(2,3) t by simp
  show ?case
  proof (cases r1)
    case (Inl err)
    then show ?thesis using Cons.prems(1) t f fr by simp
  next
    case (Inr out)
    obtain r2 w2 where g: "run_tasks fit_worker ts w1 = (r2, w2)" by (cases "run_tasks fit_worker ts w1")
    have "w' = w2" using Cons.prems(1) t f Inr g by (cases r2) simp_all
    then show ?thesis using Cons.IH[OF g] Cons.prems(2,3) fr by simp
  qed
qed




text \<open>\<^verbatim>\<open>fit\<close> sets \<^verbatim>\<open>fitted_agents\<close> and \<^verbatim>\<open>fit_statistics\<close> and no other attribute; it
  changes no dictionary that existed before the call, and no environment below the
  training environments.\<close>

lemma fit_frame:
  assumes "fit s w = (r, s', w')"
  shows "s' = s\<lparr>fitted_agents := fitted_agents s', fit_statistics := fit_statistics s'\<rparr>
     \<and> length (envs w') = length (envs w) \<and> length (dicts w) \<le> length (dicts w')
     \<and> clock w' = clock w \<and> logged w' = logged w
     \<and> (list_all (\<lambda>e. le \<le> e) (train_env_set s) \<longrightarrow> take le (envs w') = take le (envs w))
     \<and> take (length (dicts w)) (dicts w') = dicts w"
proof -
  obtain args w1 where a: "fit_args s (train_env_set s) w = (args, w1)"
    by (cases "fit_args s (train_env_set s) w")
  obtain r2 w2 where p: "run_tasks fit_worker args w1 = (r2, w2)"
    by (cases "run_tasks fit_worker args w1")
  note fa = fit_args_spec[OF a]
  have w': "w' = w2" and s': "s' = s\<lparr>fitted_agents := fitted_agents s', fit_statistics := fit_statistics s'\<rparr>"
    using assms a p
    by (auto simp: fit_def joblib_Parallel_def Let_def split: sum.splits prod.splits)
  have envs_ok: "list_all (\<lambda>t. le \<le> fst (snd t)) args"
    if "list_all (\<lambda>e. le \<le> e) (train_env_set s)"
  proof -
    have "list_all (\<lambda>e. le \<le> e) (map (\<lambda>t. fst (snd t)) args)" using fa that by simp
    then show ?thesis by (simp add: list_all_iff)
  qed
  have d: "list_all (\<lambda>t. length (dicts w) \<le> fst (snd (snd t)) \<and> length (dicts w) \<le> snd (snd (snd t))) args"
    using fa by simp
  have triv: "list_all (\<lambda>t. (0::nat) \<le> fst (snd t)) args" by (simp add: list_all_iff)
  note fr0 = run_tasks_fit_worker_frame[OF p triv d]
  have 1: "list_all (\<lambda>e. le \<le> e) (train_env_set s) \<longrightarrow> take le (envs w') = take le (envs w)"
    using run_tasks_fit_worker_frame[OF p envs_ok d] fa w' by auto
  have 2: "take (length (dicts w)) (dicts w') = dicts w"
    using fr0 fa w' by simp
  show ?thesis using s' 1 2 fr0 fa w' by simp
qed


lemma fits_frame:
  "fits k s w = (sk, wk) \<Longrightarrow> list_all (\<lambda>e. le \<le> e) (train_env_set s) \<Longrightarrow>
   ld \<le> length (dicts w) \<Longrightarrow>
     take le (envs wk) = take le (envs w) \<and> take ld (dicts wk) = take ld (dicts w)
     \<and> length (envs wk) = length (envs w) \<and> length (dicts w) \<le> length (dicts wk)
     \<and> logged wk = logged w
     \<and> sk = s\<lparr>fitted_agents := fitted_agents sk, fit_statistics := fit_statistics sk\<rparr>"
proof (induction k arbitrary: s w)
  case 0
  then show ?case by simp
next
  case (Suc k)
  obtain r s1 w1 where f: "fit s w = (r, s1, w1)" by (cases "fit s w")
  note ff = fit_frame[OF f, of le]
  have s1: "s1 = s\<lparr>fitted_agents := fitted_agents s1, fit_statistics := fit_statistics s1\<rparr>"
    using ff by simp
  have tes: "train_env_set s1 = train_env_set s"
    by (subst s1) simp
  have rest: "fits k s1 w1 = (sk, wk)" using Suc.prems(1) f by simp
  have ld1: "ld \<le> length (dicts w1)" using ff Suc.prems(3) by simp
  have ih: "take le (envs wk) = take le (envs w1) \<and> take ld (dicts wk) = take ld (dicts w1)
     \<and> length (envs wk) = length (envs w1) \<and> length (dicts w1) \<le> length (dicts wk)
     \<and> logged wk = logged w1
     \<and> sk = s1\<lparr>fitted_agents := fitted_agents sk, fit_statistics := fit_statistics sk\<rparr>"
    using Suc.IH[OF rest _ ld1] Suc.prems(2) tes by simp
  have "take ld (take (length (dicts w)) (dicts w1)) = take ld (dicts w)"
    using ff by simp
  then have d: "take ld (dicts w1) = take ld (dicts w)"
    using Suc.prems(3) by (simp add: min_def)
  have sk: "sk = s\<lparr>fitted_agents := fitted_agents sk, fit_statistics := fit_statistics sk\<rparr>"
  proof -
    have "sk = (s\<lparr>fitted_agents := fitted_agents s1, fit_statistics := fit_statistics s1\<rparr>)
                \<lparr>fitted_agents := fitted_agents sk, fit_statistics := fit_statistics sk\<rparr>"
      using ih s1 by metis
    then show ?thesis by simp
  qed
  show ?case using ih ff d sk Suc.prems(2) by simp
qed

subsection \<open>What the constructor does to the store\<close>

lemma reseed_frame:
  "length (envs (reseed ext a w)) = length (envs w) \<and> dicts (reseed ext a w) = dicts w
   \<and> clock (reseed ext a w) = clock w \<and> logged (reseed ext a w) = logged w
   \<and> (le \<le> a \<longrightarrow> take le (envs (reseed ext a w)) = take le (envs w))"
  by (simp add: reseed_def split: prod.splits)


lemma make_train_env_set_frame:
  "make_train_env_set ext te n w = (r, w') \<Longrightarrow>
     length (envs w) \<le> length (envs w') \<and> take (length (envs w)) (envs w') = envs w
     \<and> dicts w' = dicts w \<and> clock w' = clock w \<and> logged w' = logged w
     \<and> (\<forall>tes. r = Inr tes \<longrightarrow> length tes = n \<and> list_all (\<lambda>e. length (envs w) \<le> e) tes)"
proof (induction n arbitrary: w r w')
  case 0
  then show ?case by auto
next
  case (Suc n)
  show ?case
  proof (cases te)
    case None
    then show ?thesis using Suc.prems by auto
  next
    case (Some a)
    let ?w1 = "w\<lparr>envs := envs w @ [envs w ! a]\<rparr>"
    let ?w2 = "reseed ext (length (envs w)) ?w1"
    obtain r2 w3 where m: "make_train_env_set ext te n ?w2 = (r2, w3)"
      by (cases "make_train_env_set ext te n ?w2")
    note ih = Suc.IH[OF m]
    note rf = reseed_frame[of ext "length (envs w)" ?w1 "length (envs w)"]
    have w': "w' = w3" and r: "r = (case r2 of Inl e \<Rightarrow> Inl e | Inr cs \<Rightarrow> Inr (length (envs w) # cs))"
      using Suc.prems Some m
      by (auto simp: deepcopy_env_def alloc_env_def split: sum.splits)
    have len: "length (envs ?w2) = Suc (length (envs w))" using rf by simp
    have pre: "take (length (envs w)) (envs ?w2) = envs w" using rf by simp
    have "take (length (envs w)) (take (length (envs ?w2)) (envs w3)) = take (length (envs w)) (envs ?w2)"
      using ih by simp
    then have t: "take (length (envs w)) (envs w3) = envs w"
      using pre len by (simp add: min_def)
    have tes: "\<forall>tes. r = Inr tes \<longrightarrow> length tes = Suc n \<and> list_all (\<lambda>e. length (envs w) \<le> e) tes"
      using ih r len by (cases r2) (auto simp: list_all_iff)
    show ?thesis using ih rf t tes len w' by simp
  qed
qed


text \<open>Whatever its arguments and whether it raises or not, the constructor leaves the
  objects that existed before as they were; the attributes of the object it builds.\<close>

lemma AgentStats_init_frame:
  assumes "AgentStats_init ext args w0 = (r, w1)"
  shows "length (envs w0) \<le> length (envs w1) \<and> take (length (envs w0)) (envs w1) = envs w0
     \<and> length (dicts w0) \<le> length (dicts w1) \<and> take (length (dicts w0)) (dicts w1) = dicts w0
     \<and> logged w1 = logged w0
     \<and> (\<forall>s. r = Inr (Some s) \<longrightarrow>
          train_env s = arg_train_env args
          \<and> (\<forall>a. arg_init_kwargs args = Some a \<longrightarrow> init_kwargs s = a)
          \<and> (\<forall>a. arg_fit_kwargs args = Some a \<longrightarrow> fit_kwargs s = a)
          \<and> (arg_init_kwargs args = None \<longrightarrow> length (dicts w0) \<le> init_kwargs s)
          \<and> (arg_fit_kwargs args = None \<longrightarrow> length (dicts w0) \<le> fit_kwargs s)
          \<and> length (envs w0) \<le> eval_env s \<and> length (dicts w0) \<le> policy_kwargs s
          \<and> list_all (\<lambda>e. length (envs w0) \<le> e) (train_env_set s)
          \<and> length (train_env_set s) = nat (n_fit s)
          \<and> arg_agent_class args = Some (agent_class s)
          \<and> fit_info s = cls_fit_info (agent_class s)
          \<and> n_fit s = arg_n_fit args \<and> n_jobs s = arg_n_jobs args
          \<and> verbose s = arg_verbose args \<and> eval_horizon s = arg_eval_horizon args
          \<and> agent_name s = (case arg_agent_name args of None \<Rightarrow> cls_name (agent_class s) | Some n \<Rightarrow> n)
          \<and> fitted_agents s = None \<and> fit_statistics s = Map.empty \<and> study s = None)"
proof (cases "arg_agent_class args")
  case None
  then show ?thesis using assms by (auto simp: AgentStats_init_def)
next
  case (Some ac)
  show ?thesis
  proof (cases "case arg_eval_env args of None \<Rightarrow> arg_train_env args | Some a \<Rightarrow> Some a")
    case None
    then show ?thesis using assms Some by (auto simp: AgentStats_init_def Let_def)
  next
    case (Some src)
    let ?w2 = "reseed ext (length (envs w0)) (w0\<lparr>clock := Suc (clock w0), envs := envs w0 @ [envs w0 ! src]\<rparr>)"
    note rf = reseed_frame[of ext "length (envs w0)"
        "w0\<lparr>clock := Suc (clock w0), envs := envs w0 @ [envs w0 ! src]\<rparr>" "length (envs w0)"]
    obtain pk0 w3 where 3: "deepcopy_dict_opt (arg_policy_kwargs args) ?w2 = (pk0, w3)"
      by (cases "deepcopy_dict_opt (arg_policy_kwargs args) ?w2")
    obtain ik w4 where 4: "(case arg_init_kwargs args of
          None \<Rightarrow> alloc_dict Map.empty w3 | Some a \<Rightarrow> (a, w3)) = (ik, w4)"
      by (cases "(case arg_init_kwargs args of None \<Rightarrow> alloc_dict Map.empty w3 | Some a \<Rightarrow> (a, w3))")
    obtain fk w5 where 5: "(case arg_fit_kwargs args of
          None \<Rightarrow> alloc_dict Map.empty w4 | Some a \<Rightarrow> (a, w4)) = (fk, w5)"
      by (cases "(case arg_fit_kwargs args of None \<Rightarrow> alloc_dict Map.empty w4 | Some a \<Rightarrow> (a, w4))")
    obtain pk w6 where 6: "(case pk0 of
          None \<Rightarrow> alloc_dict Map.empty w5 | Some a \<Rightarrow> (a, w5)) = (pk, w6)"
      by (cases "(case pk0 of None \<Rightarrow> alloc_dict Map.empty w5 | Some a \<Rightarrow> (a, w5))")
    obtain r7 w7 where 7: "make_train_env_set ext (arg_train_env args) (nat (arg_n_fit args)) w6 = (r7, w7)"
      by (cases "make_train_env_set ext (arg_train_env args) (nat (arg_n_fit args)) w6")
    have e3: "envs w3 = envs ?w2 \<and> logged w3 = logged ?w2 \<and> length (dicts w0) \<le> length (dicts w3)
        \<and> take (length (dicts w0)) (dicts w3) = dicts w0
        \<and> (\<forall>a. pk0 = Some a \<longrightarrow> length (dicts w0) \<le> a)"
      using 3 rf
      by (auto simp: deepcopy_dict_opt_def deepcopy_dict_def alloc_dict_def split: option.splits)
    have e4: "envs w4 = envs ?w2 \<and> logged w4 = logged ?w2 \<and> length (dicts w0) \<le> length (dicts w4)
        \<and> take (length (dicts w0)) (dicts w4) = dicts w0
        \<and> (\<forall>a. arg_init_kwargs args = Some a \<longrightarrow> ik = a)
        \<and> (arg_init_kwargs args = None \<longrightarrow> length (dicts w0) \<le> ik)"
      using 4 e3 by (auto simp: alloc_dict_def split: option.splits)
    have e5: "envs w5 = envs ?w2 \<and> logged w5 = logged ?w2 \<and> length (dicts w0) \<le> length (dicts w5)
        \<and> take (length (dicts w0)) (dicts w5) = dicts w0
        \<and> (\<forall>a. arg_fit_kwargs args = Some a \<longrightarrow> fk = a)
        \<and> (arg_fit_kwargs args = None \<longrightarrow> length (dicts w0) \<le> fk)"
      using 5 e4 by (auto simp: alloc_dict_def split: option.splits)
    have e6: "envs w6 = envs ?w2 \<and> logged w6 = logged ?w2 \<and> length (dicts w0) \<le> length (dicts w6)
        \<and> take (length (dicts w0)) (dicts w6) = dicts w0
        \<and> length (dicts w0) \<le> pk"
      using 6 e5 e3 by (auto simp: alloc_dict_def split: option.splits)
    note mf = make_train_env_set_frame[OF 7]
    have l2: "length (envs ?w2) = Suc (length (envs w0))" and t2: "take (length (envs w0)) (envs ?w2) = envs w0"
      and lg2: "logged ?w2 = logged w0"
      using rf by simp_all
    have "take (length (envs w0)) (take (length (envs w6)) (envs w7)) = take (length (envs w0)) (envs w6)"
      using mf by simp
    then have t7: "take (length (envs w0)) (envs w7) = envs w0"
      using e6 l2 t2 by (simp add: min_def)
    have l7: "length (envs w0) \<le> length (envs w7)" using mf e6 l2 by simp
    have d7: "dicts w7 = dicts w6" "logged w7 = logged w0" using mf e6 lg2 by simp_all
    have tes: "\<forall>tes. r7 = Inr tes \<longrightarrow> length tes = nat (arg_n_fit args)
        \<and> list_all (\<lambda>e. length (envs w0) \<le> e) tes"
      using mf e6 l2 by (fastforce simp: list_all_iff)
    have unfold: "AgentStats_init ext args w0 =
       (case r7 of Inl e \<Rightarrow> (Inl e, w7)
        | Inr tes \<Rightarrow>
           (let (rg, g) = ext_get_rng ext (seeding w7)
            in (Inr (Some
                 \<lparr> agent_name = (case arg_agent_name args of None \<Rightarrow> cls_name ac | Some n \<Rightarrow> n),
                   stats_identifier = ''stats_'' @ (case arg_agent_name args of None \<Rightarrow> cls_name ac | Some n \<Rightarrow> n)
                       @ ''_'' @ str_int (ext_timestamp ext (clock w0)),
                   fit_info = cls_fit_info ac, agent_class = ac,
                   train_env = arg_train_env args, eval_env = length (envs w0),
                   eval_horizon = arg_eval_horizon args,
                   init_kwargs = ik, fit_kwargs = fk, policy_kwargs = pk,
                   n_fit = arg_n_fit args, n_jobs = arg_n_jobs args,
                   output_dir = arg_output_dir args, verbose = arg_verbose args,
                   train_env_set = tes, fitted_agents = None, fit_statistics = Map.empty,
                   stats_rng = rg, study = None,
                   default_filename = os_path_join (arg_output_dir args)
                      (''stats_'' @ (case arg_agent_name args of None \<Rightarrow> cls_name ac | Some n \<Rightarrow> n)
                       @ ''_'' @ str_int (ext_timestamp ext (clock w0))) \<rparr>),
                w7\<lparr>seeding := g\<rparr>)))"
      using \<open>arg_agent_class args = Some ac\<close> Some 3 4 5 6 7
      by (simp add: AgentStats_init_def Let_def deepcopy_env_def alloc_env_def
          split: sum.splits prod.splits)
    show ?thesis
    proof (cases r7)
      case (Inl e)
      then show ?thesis using assms unfold t7 l7 d7 e6 by auto
    next
      case (Inr tes')
      obtain rg g where rg: "ext_get_rng ext (seeding w7) = (rg, g)"
        by (cases "ext_get_rng ext (seeding w7)")
      obtain s where r: "r = Inr (Some s)" and w1: "w1 = w7\<lparr>seeding := g\<rparr>"
        and s: "train_env s = arg_train_env args" "init_kwargs s = ik" "fit_kwargs s = fk"
          "policy_kwargs s = pk" "eval_env s = length (envs w0)" "train_env_set s = tes'"
          "agent_class s = ac" "fit_info s = cls_fit_info ac" "n_fit s = arg_n_fit args"
          "n_jobs s = arg_n_jobs args" "verbose s = arg_verbose args"
          "eval_horizon s = arg_eval_horizon args"
          "agent_name s = (case arg_agent_name args of None \<Rightarrow> cls_name ac | Some n \<Rightarrow> n)"
          "fitted_agents s = None" "fit_statistics s = Map.empty" "study s = None"
        using assms unfold Inr rg by fastforce
      have "train_env s = arg_train_env args
          \<and> (\<forall>a. arg_init_kwargs args = Some a \<longrightarrow> init_kwargs s = a)
          \<and> (\<forall>a. arg_fit_kwargs args = Some a \<longrightarrow> fit_kwargs s = a)
          \<and> (arg_init_kwargs args = None \<longrightarrow> length (dicts w0) \<le> init_kwargs s)
          \<and> (arg_fit_kwargs args = None \<longrightarrow> length (dicts w0) \<le> fit_kwargs s)
          \<and> length (envs w0) \<le> eval_env s \<and> length (dicts w0) \<le> policy_kwargs s
          \<and> list_all (\<lambda>e. length (envs w0) \<le> e) (train_env_set s)
          \<and> length (train_env_set s) = nat (n_fit s)
          \<and> arg_agent_class args = Some (agent_class s)
          \<and> fit_info s = cls_fit_info (agent_class s)
          \<and> n_fit s = arg_n_fit args \<and> n_jobs s = arg_n_jobs args
          \<and> verbose s = arg_verbose args \<and> eval_horizon s = arg_eval_horizon args
          \<and> agent_name s = (case arg_agent_name args of None \<Rightarrow> cls_name (agent_class s) | Some n \<Rightarrow> n)
          \<and> fitted_agents s = None \<and> fit_statistics s = Map.empty \<and> study s = None"
        using s e4 e5 e6 tes Inr \<open>arg_agent_class args = Some ac\<close> by auto
      then show ?thesis
        using r w1 t7 l7 d7 e6 by simp
    qed
  qed
qed

subsection \<open>Pickles\<close>

lemma alloc_envs_eq:
  "alloc_envs es w = ([length (envs w)..<length (envs w) + length es], w\<lparr>envs := envs w @ es\<rparr>)"
proof (induction es arbitrary: w)
  case Nil
  show ?case by simp
next
  case (Cons e es)
  have "[length (envs w)..<Suc (length (envs w) + length es)] =
        length (envs w) # [Suc (length (envs w))..<Suc (length (envs w) + length es)]"
    by (rule upt_conv_Cons) simp
  then show ?case
    by (simp add: Cons.IH alloc_env_def del: upt_Suc)
qed




subsection \<open>The log\<close>

text \<open>\<^verbatim>\<open>fit\<close>, \<^verbatim>\<open>save\<close> and \<^verbatim>\<open>load\<close> neither read nor write the records sent to
  \<^verbatim>\<open>logging\<close>.\<close>

lemma fit_args_logged:
  "fit_args s es (w\<lparr>logged := l\<rparr>) =
     (fst (fit_args s es w), (snd (fit_args s es w))\<lparr>logged := l\<rparr>)"
proof (induction es arbitrary: w)
  case Nil
  show ?case by simp
next
  case (Cons e es)
  let ?w2 = "w\<lparr>dicts := (dicts w @ [dicts w ! init_kwargs s]) @
                 [(dicts w @ [dicts w ! init_kwargs s]) ! fit_kwargs s]\<rparr>"
  obtain args w3 where r: "fit_args s es ?w2 = (args, w3)" by (cases "fit_args s es ?w2")
  have ih: "fit_args s es (?w2\<lparr>logged := l\<rparr>) = (args, w3\<lparr>logged := l\<rparr>)"
    using Cons.IH[of ?w2] r by simp
  have eq: "?w2\<lparr>logged := l\<rparr> =
      (w\<lparr>logged := l\<rparr>)\<lparr>dicts := (dicts w @ [dicts w ! init_kwargs s]) @
                 [(dicts w @ [dicts w ! init_kwargs s]) ! fit_kwargs s]\<rparr>"
    by simp
  have "fit_args s es ((w\<lparr>logged := l\<rparr>)\<lparr>dicts := (dicts w @ [dicts w ! init_kwargs s]) @
                 [(dicts w @ [dicts w ! init_kwargs s]) ! fit_kwargs s]\<rparr>) = (args, w3\<lparr>logged := l\<rparr>)"
    using ih unfolding eq .
  then show ?case
    using r by (simp add: deepcopy_dict_def alloc_dict_def)
qed

lemma fit_worker_logged:
  "fit_worker t (w\<lparr>logged := l\<rparr>) = (fst (fit_worker t w), (snd (fit_worker t w))\<lparr>logged := l\<rparr>)"
  by (simp add: fit_worker_def Let_def split: prod.splits sum.splits)

lemma run_tasks_logged:
  "run_tasks fit_worker ts (w\<lparr>logged := l\<rparr>) =
     (fst (run_tasks fit_worker ts w), (snd (run_tasks fit_worker ts w))\<lparr>logged := l\<rparr>)"
proof (induction ts arbitrary: w)
  case Nil
  show ?case by simp
next
  case (Cons t ts)
  obtain r1 w1 where f: "fit_worker t w = (r1, w1)" by (cases "fit_worker t w")
  have fl: "fit_worker t (w\<lparr>logged := l\<rparr>) = (r1, w1\<lparr>logged := l\<rparr>)"
    using fit_worker_logged[where t=t and w=w and l=l] f by simp
  show ?case
  proof (cases r1)
    case (Inl e)
    then show ?thesis using f fl by simp
  next
    case (Inr out)
    obtain r2 w2 where g: "run_tasks fit_worker ts w1 = (r2, w2)"
      by (cases "run_tasks fit_worker ts w1")
    have "run_tasks fit_worker ts (w1\<lparr>logged := l\<rparr>) = (r2, w2\<lparr>logged := l\<rparr>)"
      using Cons.IH[of w1] g by simp
    then show ?thesis using f fl Inr g by (cases r2) simp_all
  qed
qed

lemma fit_logged:
  "fit s (w\<lparr>logged := l\<rparr>) = (case fit s w of (r, s1, w1) \<Rightarrow> (r, s1, w1\<lparr>logged := l\<rparr>))"
proof -
  obtain tasks wa where a: "fit_args s (train_env_set s) w = (tasks, wa)"
    by (cases "fit_args s (train_env_set s) w")
  obtain r2 wb where p: "run_tasks fit_worker tasks wa = (r2, wb)"
    by (cases "run_tasks fit_worker tasks wa")
  have a': "fit_args s (train_env_set s) (w\<lparr>logged := l\<rparr>) = (tasks, wa\<lparr>logged := l\<rparr>)"
    using fit_args_logged[where s=s and es="train_env_set s" and w=w and l=l] a by simp
  have p': "run_tasks fit_worker tasks (wa\<lparr>logged := l\<rparr>) = (r2, wb\<lparr>logged := l\<rparr>)"
    using run_tasks_logged[where ts=tasks and w=wa and l=l] p by simp
  show ?thesis
    using a p a' p'
    by (cases r2) (simp_all add: fit_def joblib_Parallel_def Let_def split: prod.splits)
qed

lemma pickle_dump_logged: "pickle_dump obj (w\<lparr>logged := l\<rparr>) = pickle_dump obj w"
  by (simp add: pickle_dump_def)

lemma pickle_load_logged:
  "pickle_load p (w\<lparr>logged := l\<rparr>) = (fst (pickle_load p w), (snd (pickle_load p w))\<lparr>logged := l\<rparr>)"
  by (cases p)
     (simp_all add: pickle_load_def alloc_env_def alloc_dict_def alloc_envs_eq Let_def
        split: option.splits prod.splits)

subsection \<open>The objective and the study\<close>

lemma objective_Inr:
  assumes refs: "train_env self = Some t" "t < length (envs w)" "eval_env self < length (envs w)"
      "init_kwargs self < length (dicts w)" "fit_kwargs self < length (dicts w)"
      "policy_kwargs self < length (dicts w)"
    and run: "objective ext oext self oa trial w = (Inr reward, w')"
  shows "\<exists>sampled params_stats w6 fitted w7 eval_result column.
          cls_sample_parameters (agent_class self) trial = Inr sampled
        \<and> AgentStats_init ext
             \<lparr> arg_agent_class = Some (agent_class self),
               arg_train_env = Some (length (envs w)),
               arg_eval_env = None, arg_eval_horizon = None,
               arg_init_kwargs = Some (length (dicts w)),
               arg_fit_kwargs = Some (Suc (length (dicts w))),
               arg_policy_kwargs = Some (Suc (Suc (length (dicts w)))),
               arg_agent_name = Some ''optim'',
               arg_n_fit = opt_n_fit oa, arg_n_jobs = opt_n_jobs oa,
               arg_output_dir = ''stats_data'', arg_verbose = 0 \<rparr>
             (w\<lparr>envs := envs w @ [envs w ! t],
                dicts := dicts w @ [dicts w ! init_kwargs self ++ sampled,
                                    dicts w ! fit_kwargs self, dicts w ! policy_kwargs self]\<rparr>)
            = (Inr (Some params_stats), w6)
        \<and> agent_name params_stats = ''optim'' \<and> n_fit params_stats = opt_n_fit oa
        \<and> n_jobs params_stats = opt_n_jobs oa \<and> verbose params_stats = 0
        \<and> fit params_stats w6 = (Inr (), fitted, w7)
        \<and> envs w7 ! eval_env self = envs w ! eval_env self
        \<and> compare_policies oext [fitted] (length (envs w7)) (eval_horizon self) True (n_sim oa)
             False (reseed ext (length (envs w7)) (w7\<lparr>envs := envs w7 @ [envs w ! eval_env self]\<rparr>))
            = (Inr eval_result, w')
        \<and> eval_result ''optim'' = Some column \<and> reward = values_mean oext column"
proof -
  let ?args = "\<lparr> arg_agent_class = Some (agent_class self),
               arg_train_env = Some (length (envs w)),
               arg_eval_env = None, arg_eval_horizon = None,
               arg_init_kwargs = Some (length (dicts w)),
               arg_fit_kwargs = Some (Suc (length (dicts w))),
               arg_policy_kwargs = Some (Suc (Suc (length (dicts w)))),
               arg_agent_name = Some ''optim'',
               arg_n_fit = opt_n_fit oa, arg_n_jobs = opt_n_jobs oa,
               arg_output_dir = ''stats_data'', arg_verbose = 0 \<rparr>"
  obtain sampled where sp: "cls_sample_parameters (agent_class self) trial = Inr sampled"
    using run
    by (cases "cls_sample_parameters (agent_class self) trial")
       (simp_all add: objective_def deepcopy_dict_def alloc_dict_def)
  let ?w5 = "w\<lparr>envs := envs w @ [envs w ! t],
                dicts := dicts w @ [dicts w ! init_kwargs self ++ sampled,
                                    dicts w ! fit_kwargs self, dicts w ! policy_kwargs self]\<rparr>"
  obtain r6 w6 where i: "AgentStats_init ext ?args ?w5 = (r6, w6)"
    by (cases "AgentStats_init ext ?args ?w5")
  have step1: "objective ext oext self oa trial w =
      (case r6 of
         Inl e \<Rightarrow> (Inl e, w6)
       | Inr None \<Rightarrow> (Inl AttributeError, w6)
       | Inr (Some params_stats) \<Rightarrow>
           (case fit params_stats w6 of
              (Inl e, params_stats1, w7) \<Rightarrow> (Inl e, w7)
            | (Inr u, params_stats1, w7) \<Rightarrow>
                (let (params_eval_env, w8) = deepcopy_env (eval_env self) w7
                 in case compare_policies oext [params_stats1] params_eval_env
                           (eval_horizon self) True (n_sim oa) False
                           (reseed ext params_eval_env w8) of
                      (Inl e, w9) \<Rightarrow> (Inl e, w9)
                    | (Inr eval_result, w9) \<Rightarrow>
                        (case eval_result ''optim'' of
                           None \<Rightarrow> (Inl KeyError, w9)
                         | Some column \<Rightarrow> (Inr (values_mean oext column), w9)))))"
    using sp refs i
    by (simp add: objective_def deepcopy_dict_def alloc_dict_def dict_update_at_def
        deepcopy_env_opt_def deepcopy_env_def alloc_env_def nth_append
        split: sum.splits option.splits)
  obtain ps where r6: "r6 = Inr (Some ps)"
    using run step1 by (cases r6) (auto split: option.splits)
  obtain rf fitted w7 where f: "fit ps w6 = (rf, fitted, w7)" by (cases "fit ps w6")
  have rf: "rf = Inr ()" using run step1 r6 f by (cases rf) simp_all
  let ?w8 = "reseed ext (length (envs w7)) (w7\<lparr>envs := envs w7 @ [envs w7 ! eval_env self]\<rparr>)"
  obtain rc w9 where c: "compare_policies oext [fitted] (length (envs w7)) (eval_horizon self)
      True (n_sim oa) False ?w8 = (rc, w9)"
    by (cases "compare_policies oext [fitted] (length (envs w7)) (eval_horizon self)
      True (n_sim oa) False ?w8")
  have step2: "objective ext oext self oa trial w =
      (case rc of Inl e \<Rightarrow> (Inl e, w9)
       | Inr eval_result \<Rightarrow>
           (case eval_result ''optim'' of
              None \<Rightarrow> (Inl KeyError, w9)
            | Some column \<Rightarrow> (Inr (values_mean oext column), w9)))"
    using step1 r6 f rf c by (simp add: deepcopy_env_def alloc_env_def split: sum.splits)
  obtain eval_result where rc: "rc = Inr eval_result"
    using run step2 by (cases rc) simp_all
  obtain column where col: "eval_result ''optim'' = Some column"
    using run step2 rc by (cases "eval_result ''optim''") simp_all
  have res: "reward = values_mean oext column" "w' = w9"
    using run step2 rc col by simp_all
  note fr = AgentStats_init_frame[OF i]
  have attrs: "agent_name ps = ''optim''" "n_fit ps = opt_n_fit oa" "n_jobs ps = opt_n_jobs oa"
    "verbose ps = 0" and tes: "list_all (\<lambda>e. length (envs ?w5) \<le> e) (train_env_set ps)"
    and t6: "take (length (envs ?w5)) (envs w6) = envs ?w5"
    using fr r6 by simp_all
  have t7: "take (length (envs ?w5)) (envs w7) = take (length (envs ?w5)) (envs w6)"
    using fit_frame[OF f, of "length (envs ?w5)"] tes by blast
  have "envs w7 ! eval_env self = take (length (envs ?w5)) (envs w7) ! eval_env self"
    using refs(3) by simp
  also have "\<dots> = envs ?w5 ! eval_env self"
    using t7 t6 by simp
  also have "\<dots> = envs w ! eval_env self"
    using refs(3) by (simp add: nth_append)
  finally have keep: "envs w7 ! eval_env self = envs w ! eval_env self" .
  show ?thesis
    using sp i r6 attrs f rf keep c rc col res
    by (intro exI[of _ sampled] exI[of _ ps] exI[of _ w6] exI[of _ fitted] exI[of _ w7]
        exI[of _ eval_result] exI[of _ column]) simp
qed

lemma create_optuna_study_attrs:
  "create_optuna_study oext self oa = (r, self1) \<Longrightarrow>
     self1\<lparr>stats_rng := stats_rng self, study := study self\<rparr> = self"
  by (auto simp: create_optuna_study_def Let_def split: if_splits option.splits prod.splits sum.splits)

lemma optimize_hyperparams_Inr:
  assumes "optimize_hyperparams ext oext True self oa w = (Inr (Some (best_trial, frame)), self', w'')"
  shows "\<exists>st self1 r st1 w1 w2.
            create_optuna_study oext self oa = (Inr st, self1)
          \<and> self1\<lparr>stats_rng := stats_rng self, study := study self\<rparr> = self
          \<and> study_optimize oext st (objective ext oext self1 oa)
                (n_trials oa) (opt_n_jobs oa) (timeout oa) w = (r, st1, w1)
          \<and> (r = Inr () \<and> w2 = w1
               \<or> r = Inl KeyboardInterrupt
                  \<and> w2 = w1\<lparr>logged := logged w1 @ [(WARNING, ''Evaluation stopped.'')]\<rparr>)
          \<and> study_best_trial oext st1 = Inr best_trial
          \<and> frame = study_trials_dataframe oext st1
          \<and> self' = self1\<lparr>study := Some st1\<rparr>
          \<and> init_kwargs self' = init_kwargs self
          \<and> w'' = w2\<lparr>dicts := (dicts w2)[init_kwargs self :=
                                  dicts w2 ! init_kwargs self ++ trial_params best_trial]\<rparr>"
proof -
  have eh: "eval_horizon self \<noteq> None"
    using assms by (auto simp: optimize_hyperparams_def split: if_splits)
  obtain rs self1 where cs: "create_optuna_study oext self oa = (rs, self1)"
    by (cases "create_optuna_study oext self oa")
  obtain st where rs: "rs = Inr st"
    using assms eh cs by (cases rs) (simp_all add: optimize_hyperparams_def)
  note at = create_optuna_study_attrs[OF cs]
  have ik: "init_kwargs self1 = init_kwargs self"
    using arg_cong[OF at, of init_kwargs] by simp
  obtain r st1 w1 where so: "study_optimize oext st (objective ext oext self1 oa)
                (n_trials oa) (opt_n_jobs oa) (timeout oa) w = (r, st1, w1)"
    by (cases "study_optimize oext st (objective ext oext self1 oa)
                (n_trials oa) (opt_n_jobs oa) (timeout oa) w")
  define w2 where "w2 = (case r of Inl KeyboardInterrupt \<Rightarrow>
          w1\<lparr>logged := logged w1 @ [(WARNING, ''Evaluation stopped.'')]\<rparr> | _ \<Rightarrow> w1)"
  have r: "r = Inr () \<or> r = Inl KeyboardInterrupt"
    using assms eh cs rs so
    by (cases r; cases "projl r")
       (auto simp: optimize_hyperparams_def Let_def split: sum.splits py_error.splits)
  have w2: "r = Inr () \<and> w2 = w1
      \<or> r = Inl KeyboardInterrupt \<and> w2 = w1\<lparr>logged := logged w1 @ [(WARNING, ''Evaluation stopped.'')]\<rparr>"
    using r by (auto simp: w2_def)
  have step: "optimize_hyperparams ext oext True self oa w =
     (case study_best_trial oext st1 of
        Inl e \<Rightarrow> (Inl e, self1\<lparr>study := Some st1\<rparr>, w2)
      | Inr bt \<Rightarrow>
          (Inr (Some (bt, study_trials_dataframe oext st1)), self1\<lparr>study := Some st1\<rparr>,
           dict_update_at (init_kwargs self1) (trial_params bt) w2))"
    using eh cs rs so r
    by (auto simp: optimize_hyperparams_def Let_def w2_def split: sum.splits)
  have bt: "study_best_trial oext st1 = Inr best_trial"
    and rest: "frame = study_trials_dataframe oext st1" "self' = self1\<lparr>study := Some st1\<rparr>"
      "w'' = dict_update_at (init_kwargs self1) (trial_params best_trial) w2"
    using assms step by (cases "study_best_trial oext st1"; simp)+
  have ik': "init_kwargs self' = init_kwargs self" using rest(2) ik by simp
  show ?thesis
  proof (rule exI[of _ st], rule exI[of _ self1], rule exI[of _ r], rule exI[of _ st1],
      rule exI[of _ w1], rule exI[of _ w2], intro conjI)
    show "create_optuna_study oext self oa = (Inr st, self1)" using cs rs by simp
    show "self1\<lparr>stats_rng := stats_rng self, study := study self\<rparr> = self" by (rule at)
    show "study_optimize oext st (objective ext oext self1 oa)
                (n_trials oa) (opt_n_jobs oa) (timeout oa) w = (r, st1, w1)" by (rule so)
    show "r = Inr () \<and> w2 = w1
               \<or> r = Inl KeyboardInterrupt
                  \<and> w2 = w1\<lparr>logged := logged w1 @ [(WARNING, ''Evaluation stopped.'')]\<rparr>"
      by (rule w2)
    show "study_best_trial oext st1 = Inr best_trial" by (rule bt)
    show "frame = study_trials_dataframe oext st1" by (rule rest(1))
    show "self' = self1\<lparr>study := Some st1\<rparr>" by (rule rest(2))
    show "init_kwargs self' = init_kwargs self" by (rule ik')
    show "w'' = w2\<lparr>dicts := (dicts w2)[init_kwargs self :=
                                  dicts w2 ! init_kwargs self ++ trial_params best_trial]\<rparr>"
      unfolding rest(3) ik dict_update_at_def ..
  qed
qed

subsection \<open>The example experiment, evaluated\<close>

lemma str_int_0: "str_int 0 = ''0''"
  by code_simp

lemma str_int_1: "str_int 1 = ''1''"
  by code_simp

lemma example_init:
  "AgentStats_init example_ext example_args example_world = (Inr (Some example_stats), example_world1)"
  by (simp add: AgentStats_init_def example_ext_def example_args_def example_world_def
      example_stats_def example_world1_def default_args_def example_class_def
      deepcopy_env_def alloc_env_def reseed_def deepcopy_dict_opt_def alloc_dict_def
      str_int_0 os_path_join_def numeral_2_eq_2 Let_def)

lemma example_fit:
  "fit example_stats example_world1 = (Inr (), example_fitted, example_world2)"
  by (simp add: fit_def example_stats_def example_world1_def example_fitted_def
      example_world2_def joblib_Parallel_def fit_worker_def example_class_def
      deepcopy_dict_def alloc_dict_def Let_def)

lemma example_objective:
  "objective example_ext example_optuna example_stats example_opt_args 5 example_world1
     = (Inr 15, example_world3)"
  by (simp add: objective_def example_stats_def example_world1_def example_world3_def
      example_opt_args_def default_opt_args_def example_optuna_def example_ext_def
      example_class_def AgentStats_init_def fit_def joblib_Parallel_def fit_worker_def
      deepcopy_env_def deepcopy_env_opt_def alloc_env_def reseed_def deepcopy_dict_opt_def
      deepcopy_dict_def alloc_dict_def dict_update_at_def str_int_1 os_path_join_def Let_def)

lemma example_optimize:
  "optimize_hyperparams example_ext example_optuna True example_stats example_opt_args
      example_world1
     = (Inr (Some (\<lparr> trial_params = [''lr'' \<mapsto> 5], trial_value = 15 \<rparr>, [''value'' \<mapsto> [15]])),
        example_optimized, example_world4)"
proof -
  have cs: "create_optuna_study example_optuna example_stats example_opt_args =
      (Inr 0, example_stats\<lparr> stats_rng := 104, study := Some 0 \<rparr>)"
    by (simp add: create_optuna_study_def example_opt_args_def default_opt_args_def
        example_optuna_def example_stats_def)
  have ob: "objective example_ext example_optuna (example_stats\<lparr> stats_rng := 104, study := Some 0 \<rparr>)
       example_opt_args 5 example_world1 = (Inr 15, example_world3)"
    by (simp add: objective_def example_stats_def example_world1_def example_world3_def
      example_opt_args_def default_opt_args_def example_optuna_def example_ext_def
      example_class_def AgentStats_init_def fit_def joblib_Parallel_def fit_worker_def
      deepcopy_env_def deepcopy_env_opt_def alloc_env_def reseed_def deepcopy_dict_opt_def
      deepcopy_dict_def alloc_dict_def dict_update_at_def str_int_1 os_path_join_def Let_def)
  have so: "study_optimize example_optuna 0
      (objective example_ext example_optuna (example_stats\<lparr> stats_rng := 104, study := Some 0 \<rparr>)
         example_opt_args)
      (n_trials example_opt_args) (opt_n_jobs example_opt_args) (timeout example_opt_args)
      example_world1 = (Inr (), 5, example_world3)"
    using ob by (simp add: example_optuna_def)
  have eh: "eval_horizon example_stats \<noteq> None" by (simp add: example_stats_def)
  have bt: "study_best_trial example_optuna 5 = Inr \<lparr> trial_params = [''lr'' \<mapsto> 5], trial_value = 15 \<rparr>"
    "study_trials_dataframe example_optuna 5 = [''value'' \<mapsto> [15]]"
    by (simp_all add: example_optuna_def)
  have up: "dict_update_at 0 [''lr'' \<mapsto> 5] example_world3 = example_world4"
    by (simp add: dict_update_at_def example_world3_def example_world4_def)
  have ik: "init_kwargs (example_stats\<lparr> stats_rng := 104, study := Some 5 \<rparr>) = 0"
    by (simp add: example_stats_def)
  show ?thesis
    unfolding optimize_hyperparams_def using eh
    by (simp add: cs so bt up ik example_optimized_def Let_def)
qed

section \<open>The claims about AgentStats\<close>







text \<open>
  Claim C4.  The attributes of the object that name objects name objects of the store.
  \<^item> When the objective returns a reward for a trial, the class has sampled parameters for
    the trial; the constructor was called with the class, the name \<^verbatim>\<open>optim\<close>, \<open>n_fit\<close>
    and \<open>n_jobs\<close> as given to \<^verbatim>\<open>optimize_hyperparams\<close>, verbosity 0, and four new
    objects: a copy of \<^verbatim>\<open>train_env\<close>, a copy of \<^verbatim>\<open>init_kwargs\<close> updated with the
    sampled parameters, and copies of \<^verbatim>\<open>fit_kwargs\<close> and \<^verbatim>\<open>policy_kwargs\<close>; it returned
    an object, on which \<^verbatim>\<open>fit\<close> was called and returned; \<^verbatim>\<open>compare_policies\<close> was called
    with the fitted object and a new environment, a reseeded copy of \<^verbatim>\<open>eval_env\<close> as it
    was when the objective was called; the reward is the mean of the column \<^verbatim>\<open>optim\<close>.
  \<^item> When \<^verbatim>\<open>optimize_hyperparams\<close> returns a best trial, the study was run with this
    objective (of the object as the creation of the study left it: only the generator
    and the study differ), and the dictionary \<^verbatim>\<open>init_kwargs\<close> names, the same object as
    before, has been updated in place with the parameters of the best trial; nothing
    else of the store changed after the study.
\<close>

theorem optimize_hyperparams_reenters_pipeline:
  assumes "train_env self = Some t" and "t < length (envs w)"
    and "eval_env self < length (envs w)"
    and "init_kwargs self < length (dicts w)" and "fit_kwargs self < length (dicts w)"
    and "policy_kwargs self < length (dicts w)"
  shows "(objective ext oext self oa trial w = (Inr reward, w') \<longrightarrow>
      (\<exists>sampled params_stats w6 fitted w7 eval_result column.
          cls_sample_parameters (agent_class self) trial = Inr sampled
        \<and> AgentStats_init ext
             \<lparr> arg_agent_class = Some (agent_class self),
               arg_train_env = Some (length (envs w)),
               arg_eval_env = None, arg_eval_horizon = None,
               arg_init_kwargs = Some (length (dicts w)),
               arg_fit_kwargs = Some (Suc (length (dicts w))),
               arg_policy_kwargs = Some (Suc (Suc (length (dicts w)))),
               arg_agent_name = Some ''optim'',
               arg_n_fit = opt_n_fit oa, arg_n_jobs = opt_n_jobs oa,
               arg_output_dir = ''stats_data'', arg_verbose = 0 \<rparr>
             (w\<lparr>envs := envs w @ [envs w ! t],
                dicts := dicts w @ [dicts w ! init_kwargs self ++ sampled,
                                    dicts w ! fit_kwargs self, dicts w ! policy_kwargs self]\<rparr>)
            = (Inr (Some params_stats), w6)
        \<and> agent_name params_stats = ''optim'' \<and> n_fit params_stats = opt_n_fit oa
        \<and> n_jobs params_stats = opt_n_jobs oa \<and> verbose params_stats = 0
        \<and> fit params_stats w6 = (Inr (), fitted, w7)
        \<and> envs w7 ! eval_env self = envs w ! eval_env self
        \<and> compare_policies oext [fitted] (length (envs w7)) (eval_horizon self) True (n_sim oa)
             False (reseed ext (length (envs w7)) (w7\<lparr>envs := envs w7 @ [envs w ! eval_env self]\<rparr>))
            = (Inr eval_result, w')
        \<and> eval_result ''optim'' = Some column \<and> reward = values_mean oext column))
   \<and> (optimize_hyperparams ext oext True self oa w
         = (Inr (Some (best_trial, frame)), self', w'') \<longrightarrow>
      (\<exists>st self1 r st1 w1 w2.
            create_optuna_study oext self oa = (Inr st, self1)
          \<and> self1\<lparr>stats_rng := stats_rng self, study := study self\<rparr> = self
          \<and> study_optimize oext st (objective ext oext self1 oa)
                (n_trials oa) (opt_n_jobs oa) (timeout oa) w = (r, st1, w1)
          \<and> (r = Inr () \<and> w2 = w1
               \<or> r = Inl KeyboardInterrupt
                  \<and> w2 = w1\<lparr>logged := logged w1 @ [(WARNING, ''Evaluation stopped.'')]\<rparr>)
          \<and> study_best_trial oext st1 = Inr best_trial
          \<and> frame = study_trials_dataframe oext st1
          \<and> self' = self1\<lparr>study := Some st1\<rparr>
          \<and> init_kwargs self' = init_kwargs self
          \<and> w'' = w2\<lparr>dicts := (dicts w2)[init_kwargs self :=
                                  dicts w2 ! init_kwargs self ++ trial_params best_trial]\<rparr>))"
proof (intro conjI impI)
  assume "objective ext oext self oa trial w = (Inr reward, w')"
  from objective_Inr[OF assms this]
  show "\<exists>sampled params_stats w6 fitted w7 eval_result column.
          cls_sample_parameters (agent_class self) trial = Inr sampled
        \<and> AgentStats_init ext
             \<lparr> arg_agent_class = Some (agent_class self),
               arg_train_env = Some (length (envs w)),
               arg_eval_env = None, arg_eval_horizon = None,
               arg_init_kwargs = Some (length (dicts w)),
               arg_fit_kwargs = Some (Suc (length (dicts w))),
               arg_policy_kwargs = Some (Suc (Suc (length (dicts w)))),
               arg_agent_name = Some ''optim'',
               arg_n_fit = opt_n_fit oa, arg_n_jobs = opt_n_jobs oa,
               arg_output_dir = ''stats_data'', arg_verbose = 0 \<rparr>
             (w\<lparr>envs := envs w @ [envs w ! t],
                dicts := dicts w @ [dicts w ! init_kwargs self ++ sampled,
                                    dicts w ! fit_kwargs self, dicts w ! policy_kwargs self]\<rparr>)
            = (Inr (Some params_stats), w6)
        \<and> agent_name params_stats = ''optim'' \<and> n_fit params_stats = opt_n_fit oa
        \<and> n_jobs params_stats = opt_n_jobs oa \<and> verbose params_stats = 0
        \<and> fit params_stats w6 = (Inr (), fitted, w7)
        \<and> envs w7 ! eval_env self = envs w ! eval_env self
        \<and> compare_policies oext [fitted] (length (envs w7)) (eval_horizon self) True (n_sim oa)
             False (reseed ext (length (envs w7)) (w7\<lparr>envs := envs w7 @ [envs w ! eval_env self]\<rparr>))
            = (Inr eval_result, w')
        \<and> eval_result ''optim'' = Some column \<and> reward = values_mean oext column" .
next
  assume "optimize_hyperparams ext oext True self oa w
         = (Inr (Some (best_trial, frame)), self', w'')"
  from optimize_hyperparams_Inr[OF this]
  show "\<exists>st self1 r st1 w1 w2.
            create_optuna_study oext self oa = (Inr st, self1)
          \<and> self1\<lparr>stats_rng := stats_rng self, study := study self\<rparr> = self
          \<and> study_optimize oext st (objective ext oext self1 oa)
                (n_trials oa) (opt_n_jobs oa) (timeout oa) w = (r, st1, w1)
          \<and> (r = Inr () \<and> w2 = w1
               \<or> r = Inl KeyboardInterrupt
                  \<and> w2 = w1\<lparr>logged := logged w1 @ [(WARNING, ''Evaluation stopped.'')]\<rparr>)
          \<and> study_best_trial oext st1 = Inr best_trial
          \<and> frame = study_trials_dataframe oext st1
          \<and> self' = self1\<lparr>study := Some st1\<rparr>
          \<and> init_kwargs self' = init_kwargs self
          \<and> w'' = w2\<lparr>dicts := (dicts w2)[init_kwargs self :=
                                  dicts w2 ! init_kwargs self ++ trial_params best_trial]\<rparr>" .
qed

text \<open>The theorem at the example: the objective on trial 5 returns 15, the mean of 10
  and 20, and leaves the caller's dictionary as it was; \<^verbatim>\<open>optimize_hyperparams\<close> then
  writes \<^verbatim>\<open>lr = 5\<close> into it.\<close>

theorem optimize_hyperparams_reenters_pipeline_witness:
  "train_env example_stats = Some 0 \<and> 0 < length (envs example_world1)
   \<and> eval_env example_stats < length (envs example_world1)
   \<and> init_kwargs example_stats < length (dicts example_world1)
   \<and> fit_kwargs example_stats < length (dicts example_world1)
   \<and> policy_kwargs example_stats < length (dicts example_world1)
   \<and> objective example_ext example_optuna example_stats example_opt_args 5 example_world1
       = (Inr 15, example_world3)
   \<and> dicts example_world3 ! 3 = [''lr'' \<mapsto> 5]
   \<and> dicts example_world3 ! 0 = [''lr'' \<mapsto> 1]
   \<and> optimize_hyperparams example_ext example_optuna True example_stats example_opt_args
        example_world1
       = (Inr (Some (\<lparr> trial_params = [''lr'' \<mapsto> 5], trial_value = 15 \<rparr>, [''value'' \<mapsto> [15]])),
          example_optimized, example_world4)
   \<and> init_kwargs example_optimized = 0
   \<and> dicts example_world4 ! 0 = [''lr'' \<mapsto> 5]"
proof -
  have h: "train_env example_stats = Some 0" "0 < length (envs example_world1)"
    "eval_env example_stats < length (envs example_world1)"
    "init_kwargs example_stats < length (dicts example_world1)"
    "fit_kwargs example_stats < length (dicts example_world1)"
    "policy_kwargs example_stats < length (dicts example_world1)"
    by (simp_all add: example_stats_def example_world1_def)
  note t = optimize_hyperparams_reenters_pipeline[OF h, of example_ext example_optuna
      example_opt_args 5 15 example_world3
      "\<lparr> trial_params = [''lr'' \<mapsto> 5], trial_value = 15 \<rparr>" "[''value'' \<mapsto> [15]]"
      example_optimized example_world4]
  have v: "dicts example_world3 ! 3 = [''lr'' \<mapsto> 5]" "dicts example_world3 ! 0 = [''lr'' \<mapsto> 1]"
    "init_kwargs example_optimized = 0" "dicts example_world4 ! 0 = [''lr'' \<mapsto> 5]"
    by (simp_all add: example_world3_def example_world4_def example_optimized_def example_stats_def)
  from t h v example_objective example_optimize show ?thesis by blast
qed

text \<open>
  Claim C6.  When optuna is not installed, \<^verbatim>\<open>optimize_hyperparams\<close> returns \<^verbatim>\<open>None\<close>
  without raising, with the object and every object of the store as they were, and one
  error record more in the log.  \<^verbatim>\<open>fit\<close>, \<^verbatim>\<open>save\<close> and \<^verbatim>\<open>load\<close> do not depend on the
  log: with any other records logged they return the same and leave the same store and
  files, so they work after the call as they did before it.
\<close>

theorem optimize_hyperparams_without_optuna:
  "optimize_hyperparams ext oext False self oa w =
     (Inr None, self, w\<lparr>logged := logged w @ [(ERROR, ''Optuna not installed.'')]\<rparr>)
   \<and> fit self (w\<lparr>logged := l\<rparr>) = (case fit self w of (r, s1, w1) \<Rightarrow> (r, s1, w1\<lparr>logged := l\<rparr>))
   \<and> save obj filename (w\<lparr>logged := l\<rparr>) fs = save obj filename w fs
   \<and> load ext filename' (w\<lparr>logged := l\<rparr>) fs =
       (case load ext filename' w fs of (r, w1) \<Rightarrow> (r, w1\<lparr>logged := l\<rparr>))"
proof -
  have 1: "optimize_hyperparams ext oext False self oa w =
     (Inr None, self, w\<lparr>logged := logged w @ [(ERROR, ''Optuna not installed.'')]\<rparr>)"
    by (simp add: optimize_hyperparams_def)
  have 3: "save obj filename (w\<lparr>logged := l\<rparr>) fs = save obj filename w fs"
    unfolding save_def pickle_dump_logged ..
  have 4: "load ext filename' (w\<lparr>logged := l\<rparr>) fs =
       (case load ext filename' w fs of (r, w1) \<Rightarrow> (r, w1\<lparr>logged := l\<rparr>))"
    by (simp add: load_def AgentStats_init_def default_args_def pickle_load_logged
        split: option.splits prod.splits)
  show ?thesis using 1 fit_logged[where s=self and w=w and l=l] 3 4 by simp
qed

text \<open>The theorem at the example: \<^verbatim>\<open>fit\<close> after the call returns what it returns
  without the call.\<close>

theorem optimize_hyperparams_without_optuna_witness:
  "optimize_hyperparams example_ext example_optuna False example_stats default_opt_args
      example_world1 =
     (Inr None, example_stats,
      example_world1\<lparr>logged := [(ERROR, ''Optuna not installed.'')]\<rparr>)
   \<and> fit example_stats (example_world1\<lparr>logged := [(ERROR, ''Optuna not installed.'')]\<rparr>) =
       (Inr (), example_fitted, example_world2\<lparr>logged := [(ERROR, ''Optuna not installed.'')]\<rparr>)"
  using optimize_hyperparams_without_optuna[where ext=example_ext and oext=example_optuna
      and self=example_stats and oa=default_opt_args and w=example_world1
      and l="[(ERROR, ''Optuna not installed.'')]" and obj="Some example_stats"
      and filename=None and fs=example_fs and filename'="''run1''"] example_fit
  by (simp add: example_world1_def)

text \<open>
  Claim C9, as the code has it.  The code of an agent changes only the objects it is
  called with.  When the constructor returns an object, then after any number of calls
  of \<^verbatim>\<open>fit\<close>, raising or not, every environment and every dictionary that existed before
  the constructor was called has the content it had then: in particular the caller's
  \<^verbatim>\<open>train_env\<close>, \<^verbatim>\<open>eval_env\<close>, \<^verbatim>\<open>init_kwargs\<close>, \<^verbatim>\<open>fit_kwargs\<close> and \<^verbatim>\<open>policy_kwargs\<close>.
  The attributes \<^verbatim>\<open>train_env\<close>, \<^verbatim>\<open>init_kwargs\<close> and \<^verbatim>\<open>fit_kwargs\<close> name the caller's own
  objects (the latter two when the caller gave one); \<^verbatim>\<open>eval_env\<close>, \<^verbatim>\<open>policy_kwargs\<close> and
  the training environments are new objects.
\<close>

theorem constructor_and_fit_leave_callers_objects:
  assumes init: "AgentStats_init ext args w0 = (Inr (Some s), w1)"
    and calls: "fits k s w1 = (sk, wk)"
  shows "(\<forall>a<length (envs w0). envs wk ! a = envs w0 ! a)
     \<and> (\<forall>a<length (dicts w0). dicts wk ! a = dicts w0 ! a)
     \<and> train_env sk = arg_train_env args
     \<and> (\<forall>a. arg_init_kwargs args = Some a \<longrightarrow> init_kwargs sk = a)
     \<and> (\<forall>a. arg_fit_kwargs args = Some a \<longrightarrow> fit_kwargs sk = a)
     \<and> length (envs w0) \<le> eval_env sk
     \<and> length (dicts w0) \<le> policy_kwargs sk
     \<and> list_all (\<lambda>e. length (envs w0) \<le> e) (train_env_set sk)"
proof -
  note i = AgentStats_init_frame[OF init]
  have tes: "list_all (\<lambda>e. length (envs w0) \<le> e) (train_env_set s)"
    and ld: "length (dicts w0) \<le> length (dicts w1)"
    using i by simp_all
  note f = fits_frame[OF calls tes ld]
  have sk: "sk = s\<lparr>fitted_agents := fitted_agents sk, fit_statistics := fit_statistics sk\<rparr>"
    using f by blast
  have same: "train_env sk = train_env s" "init_kwargs sk = init_kwargs s"
    "fit_kwargs sk = fit_kwargs s" "eval_env sk = eval_env s" "policy_kwargs sk = policy_kwargs s"
    "train_env_set sk = train_env_set s"
    using arg_cong[OF sk, of train_env] arg_cong[OF sk, of init_kwargs]
      arg_cong[OF sk, of fit_kwargs] arg_cong[OF sk, of eval_env]
      arg_cong[OF sk, of policy_kwargs] arg_cong[OF sk, of train_env_set]
    by simp_all
  have e: "take (length (envs w0)) (envs wk) = envs w0"
    and d: "take (length (dicts w0)) (dicts wk) = dicts w0"
    using f[THEN conjunct1] f[THEN conjunct2, THEN conjunct1] i by simp_all
  have en: "\<forall>a<length (envs w0). envs wk ! a = envs w0 ! a"
  proof (intro allI impI)
    fix a assume "a < length (envs w0)"
    then have "take (length (envs w0)) (envs wk) ! a = envs wk ! a" by simp
    then show "envs wk ! a = envs w0 ! a" using e by simp
  qed
  have dn: "\<forall>a<length (dicts w0). dicts wk ! a = dicts w0 ! a"
  proof (intro allI impI)
    fix a assume "a < length (dicts w0)"
    then have "take (length (dicts w0)) (dicts wk) ! a = dicts wk ! a" by simp
    then show "dicts wk ! a = dicts w0 ! a" using d by simp
  qed
  have refs: "train_env s = arg_train_env args"
    "\<forall>a. arg_init_kwargs args = Some a \<longrightarrow> init_kwargs s = a"
    "\<forall>a. arg_fit_kwargs args = Some a \<longrightarrow> fit_kwargs s = a"
    "length (envs w0) \<le> eval_env s" "length (dicts w0) \<le> policy_kwargs s"
    using i by simp_all
  show ?thesis using en dn same refs tes by simp
qed

text \<open>The theorem at the example, after one call of \<^verbatim>\<open>fit\<close>.\<close>

theorem constructor_and_fit_leave_callers_objects_witness:
  "AgentStats_init example_ext example_args example_world = (Inr (Some example_stats), example_world1)
   \<and> fits 1 example_stats example_world1 = (example_fitted, example_world2)
   \<and> envs example_world2 ! 0 = envs example_world ! 0
   \<and> dicts example_world2 ! 0 = dicts example_world ! 0
   \<and> dicts example_world2 ! 1 = dicts example_world ! 1
   \<and> train_env example_fitted = Some 0
   \<and> init_kwargs example_fitted = 0 \<and> fit_kwargs example_fitted = 1"
proof -
  have f: "fits 1 example_stats example_world1 = (example_fitted, example_world2)"
    using example_fit by simp
  from constructor_and_fit_leave_callers_objects[OF example_init f] example_init f
  show ?thesis
    by (simp add: example_world_def example_world2_def example_fitted_def example_stats_def)
qed

text \<open>
  Claim C9 as it is stated fails.  In the example the constructor stores the caller's
  training environment itself, the object at address 0, not a copy of it, and the
  caller's \<^verbatim>\<open>init_kwargs\<close>, the dictionary at address 0, which holds \<^verbatim>\<open>lr = 1\<close>.  After
  \<^verbatim>\<open>optimize_hyperparams\<close> the caller's dictionary holds \<^verbatim>\<open>lr = 5\<close>: a method of
  \<^verbatim>\<open>AgentStats\<close> has changed an input of the caller.
\<close>

theorem callers_inputs_counterexample:
  "AgentStats_init example_ext example_args example_world = (Inr (Some example_stats), example_world1)
   \<and> arg_train_env example_args = Some 0 \<and> train_env example_stats = Some 0
   \<and> arg_init_kwargs example_args = Some 0 \<and> init_kwargs example_stats = 0
   \<and> (dicts example_world ! 0) ''lr'' = Some 1
   \<and> optimize_hyperparams example_ext example_optuna True example_stats example_opt_args
        example_world1
       = (Inr (Some (\<lparr> trial_params = [''lr'' \<mapsto> 5], trial_value = 15 \<rparr>, [''value'' \<mapsto> [15]])),
          example_optimized, example_world4)
   \<and> (dicts example_world4 ! 0) ''lr'' = Some 5"
  using example_init example_optimize
  by (simp add: example_args_def default_args_def example_stats_def example_world_def
      example_world4_def)


end
